theory Spec2Isabelle
  imports Main
begin

section \<open>Data model of the Claudie secret controller\<close>

text \<open>
  The controller of \<^verbatim>\<open>internal/controller/secret_controller.go\<close> watches Claudie
  kubeconfig secrets and keeps one SveltosCluster per secret. The objects are modelled with
  the fields the controller reads or writes.
\<close>

text \<open>\<^verbatim>\<open>types.NamespacedName\<close>: the pair (Namespace, Name).\<close>

type_synonym NamespacedName = "string \<times> string"

text \<open>
  Errors. The store answers with \<^verbatim>\<open>NotFound\<close>, \<^verbatim>\<open>AlreadyExists\<close> or any
  other failure; \<^verbatim>\<open>errors.Wrapf\<close> annotates an error and keeps its cause.
\<close>

datatype goerror = NotFound | AlreadyExists | StoreFailure string | Wrapped goerror string

fun IsNotFound :: "goerror \<Rightarrow> bool" where
  "IsNotFound NotFound = True"
| "IsNotFound (Wrapped e m) = IsNotFound e"
| "IsNotFound AlreadyExists = False"
| "IsNotFound (StoreFailure m) = False"

text \<open>\<^verbatim>\<open>errors.Wrapf(err, ...)\<close> returns nil when \<^verbatim>\<open>err\<close> is nil.\<close>

definition Wrapf :: "goerror option \<Rightarrow> string \<Rightarrow> goerror option" where
  "Wrapf err msg = (case err of None \<Rightarrow> None | Some e \<Rightarrow> Some (Wrapped e msg))"

text \<open>
  \<^verbatim>\<open>*metav1.Time\<close>: \<open>None\<close> is the nil pointer, \<open>Some t\<close> the instant \<open>t\<close>, counted
  from Go's zero instant. \<^verbatim>\<open>IsZero\<close> holds of nil and of the zero instant.
\<close>

definition IsZero :: "int option \<Rightarrow> bool" where
  "IsZero t = (case t of None \<Rightarrow> True | Some n \<Rightarrow> n = 0)"

record OwnerReference =
  ref_APIVersion :: string
  ref_Kind :: string
  ref_Name :: string
  ref_UID :: string

text \<open>
  \<^verbatim>\<open>corev1.Secret\<close>. \<open>secret_APIVersion\<close> and \<open>secret_Kind\<close> are the object's
  \<^verbatim>\<open>TypeMeta\<close>, which \<^verbatim>\<open>GetObjectKind().GroupVersionKind()\<close> reads. A Go map that
  is nil is \<open>None\<close>.
\<close>

record Secret =
  secret_APIVersion :: string
  secret_Kind :: string
  secret_Namespace :: string
  secret_Name :: string
  secret_UID :: string
  secret_Labels :: "(string \<rightharpoonup> string) option"
  secret_DeletionTimestamp :: "int option"

text \<open>
  \<^verbatim>\<open>libsveltosv1alpha1.SveltosCluster\<close>. A nil slice of owner references and an empty
  one behave alike under \<^verbatim>\<open>range\<close> and \<^verbatim>\<open>append\<close>; both are \<open>[]\<close>.
\<close>

record SveltosCluster =
  sc_Namespace :: string
  sc_Name :: string
  sc_Labels :: "(string \<rightharpoonup> string) option"
  sc_Annotations :: "(string \<rightharpoonup> string) option"
  sc_OwnerReferences :: "OwnerReference list"
  sc_DeletionTimestamp :: "int option"
  sc_KubeconfigName :: string

text \<open>The zero value \<^verbatim>\<open>&libsveltosv1alpha1.SveltosCluster{}\<close>.\<close>

definition emptySveltosCluster :: SveltosCluster where
  "emptySveltosCluster =
     \<lparr>sc_Namespace = '''', sc_Name = '''', sc_Labels = None, sc_Annotations = None,
      sc_OwnerReferences = [], sc_DeletionTimestamp = None, sc_KubeconfigName = ''''\<rparr>"

definition clusterKey :: "SveltosCluster \<Rightarrow> NamespacedName" where
  "clusterKey sc = (sc_Namespace sc, sc_Name sc)"

definition claudieLabel :: string where
  "claudieLabel = ''app.kubernetes.io/part-of''"

definition claudieKubeconfig :: string where
  "claudieKubeconfig = ''claudie.io/output''"

definition claudieCluster :: string where
  "claudieCluster = ''claudie.io/cluster''"

definition sveltosClusterClaudieAnnotation :: string where
  "sveltosClusterClaudieAnnotation = ''projectsveltos.io/claudie''"

text \<open>\<^verbatim>\<open>normalRequeueAfter = 10 * time.Second\<close>, in nanoseconds.\<close>

definition normalRequeueAfter :: nat where
  "normalRequeueAfter = 10 * 1000000000"

text \<open>\<^verbatim>\<open>reconcile.Result\<close>.\<close>

record Result =
  Requeue :: bool
  RequeueAfter :: nat

definition noRequeue :: Result where
  "noRequeue = \<lparr>Requeue = False, RequeueAfter = 0\<rparr>"

definition requeueLater :: Result where
  "requeueLater = \<lparr>Requeue = True, RequeueAfter = normalRequeueAfter\<rparr>"

section \<open>The resource store and the history of a run\<close>

text \<open>
  Every effect of the controller is an event of the run's history, in program order: the
  mutex operations, the accesses to the Secret-to-Cluster map, the calls to the store and
  the log lines (message and, where the code logs one, the error value).
\<close>

datatype event =
    Lock
  | Unlock
  | MapRead NamespacedName
  | MapWrite NamespacedName NamespacedName
  | MapDelete NamespacedName
  | CallGetSecret NamespacedName
  | CallGetCluster NamespacedName
  | CallList
  | CallCreate NamespacedName
  | CallUpdate NamespacedName
  | CallDelete NamespacedName
  | Sleep
  | LogInfo string "goerror option"
  | LogError "goerror option" string

fun isStoreCall :: "event \<Rightarrow> bool" where
  "isStoreCall (CallGetSecret k) = True"
| "isStoreCall (CallGetCluster k) = True"
| "isStoreCall CallList = True"
| "isStoreCall (CallCreate k) = True"
| "isStoreCall (CallUpdate k) = True"
| "isStoreCall (CallDelete k) = True"
| "isStoreCall Lock = False"
| "isStoreCall Unlock = False"
| "isStoreCall (MapRead k) = False"
| "isStoreCall (MapWrite k v) = False"
| "isStoreCall (MapDelete k) = False"
| "isStoreCall Sleep = False"
| "isStoreCall (LogInfo m e) = False"
| "isStoreCall (LogError e m) = False"

fun isStoreWrite :: "event \<Rightarrow> bool" where
  "isStoreWrite (CallCreate k) = True"
| "isStoreWrite (CallUpdate k) = True"
| "isStoreWrite (CallDelete k) = True"
| "isStoreWrite (CallGetSecret k) = False"
| "isStoreWrite (CallGetCluster k) = False"
| "isStoreWrite CallList = False"
| "isStoreWrite Lock = False"
| "isStoreWrite Unlock = False"
| "isStoreWrite (MapRead k) = False"
| "isStoreWrite (MapWrite k v) = False"
| "isStoreWrite (MapDelete k) = False"
| "isStoreWrite Sleep = False"
| "isStoreWrite (LogInfo m e) = False"
| "isStoreWrite (LogError e m) = False"

text \<open>
  \<^verbatim>\<open>client.Client\<close>, the resource store, is an external collaborator. Its state is the
  secrets and the SveltosClusters it holds (the latter in listing order, keyed by namespace
  and name). Any call may fail: \<open>inject\<close> gives, from the history so far and the call
  being made, the error the store answers with, or \<open>None\<close> when the call goes through.
  A call that goes through behaves as the Kubernetes API does: Get of an absent key is
  \<^verbatim>\<open>NotFound\<close>, Create of a present key is \<^verbatim>\<open>AlreadyExists\<close>, Update and Delete of
  an absent key are \<^verbatim>\<open>NotFound\<close>; Delete removes the object.
\<close>

record client =
  secrets :: "NamespacedName \<rightharpoonup> Secret"
  clusters :: "SveltosCluster list"
  inject :: "event list \<Rightarrow> event \<Rightarrow> goerror option"
  trace :: "event list"

definition emit :: "client \<Rightarrow> event \<Rightarrow> client" where
  "emit c e = c\<lparr>trace := trace c @ [e]\<rparr>"

definition findCluster :: "client \<Rightarrow> NamespacedName \<Rightarrow> SveltosCluster option" where
  "findCluster c k = find (\<lambda>sc. clusterKey sc = k) (clusters c)"

definition getSecret :: "client \<Rightarrow> NamespacedName \<Rightarrow> (goerror + Secret) \<times> client" where
  "getSecret c k =
     (let c' = emit c (CallGetSecret k) in
      case inject c (trace c) (CallGetSecret k) of
        Some e \<Rightarrow> (Inl e, c')
      | None \<Rightarrow> (case secrets c k of
                   None \<Rightarrow> (Inl NotFound, c')
                 | Some s \<Rightarrow> (Inr s, c')))"

definition getCluster :: "client \<Rightarrow> NamespacedName \<Rightarrow> (goerror + SveltosCluster) \<times> client" where
  "getCluster c k =
     (let c' = emit c (CallGetCluster k) in
      case inject c (trace c) (CallGetCluster k) of
        Some e \<Rightarrow> (Inl e, c')
      | None \<Rightarrow> (case findCluster c k of
                   None \<Rightarrow> (Inl NotFound, c')
                 | Some sc \<Rightarrow> (Inr sc, c')))"

definition listClusters :: "client \<Rightarrow> (goerror + SveltosCluster list) \<times> client" where
  "listClusters c =
     (let c' = emit c CallList in
      case inject c (trace c) CallList of
        Some e \<Rightarrow> (Inl e, c')
      | None \<Rightarrow> (Inr (clusters c), c'))"

definition createCluster :: "client \<Rightarrow> SveltosCluster \<Rightarrow> goerror option \<times> client" where
  "createCluster c sc =
     (let k = clusterKey sc; c' = emit c (CallCreate k) in
      case inject c (trace c) (CallCreate k) of
        Some e \<Rightarrow> (Some e, c')
      | None \<Rightarrow> (case findCluster c k of
                   Some old \<Rightarrow> (Some AlreadyExists, c')
                 | None \<Rightarrow> (None, c'\<lparr>clusters := clusters c @ [sc]\<rparr>)))"

definition updateCluster :: "client \<Rightarrow> SveltosCluster \<Rightarrow> goerror option \<times> client" where
  "updateCluster c sc =
     (let k = clusterKey sc; c' = emit c (CallUpdate k) in
      case inject c (trace c) (CallUpdate k) of
        Some e \<Rightarrow> (Some e, c')
      | None \<Rightarrow> (case findCluster c k of
                   None \<Rightarrow> (Some NotFound, c')
                 | Some old \<Rightarrow>
                     (None, c'\<lparr>clusters :=
                        map (\<lambda>x. if clusterKey x = k then sc else x) (clusters c)\<rparr>)))"

definition deleteCluster :: "client \<Rightarrow> SveltosCluster \<Rightarrow> goerror option \<times> client" where
  "deleteCluster c sc =
     (let k = clusterKey sc; c' = emit c (CallDelete k) in
      case inject c (trace c) (CallDelete k) of
        Some e \<Rightarrow> (Some e, c')
      | None \<Rightarrow> (case findCluster c k of
                   None \<Rightarrow> (Some NotFound, c')
                 | Some old \<Rightarrow>
                     (None, c'\<lparr>clusters := filter (\<lambda>x. clusterKey x \<noteq> k) (clusters c)\<rparr>)))"

text \<open>The events a run added to the history of the client it started from.\<close>

definition newEvents :: "client \<Rightarrow> client \<Rightarrow> event list" where
  "newEvents c c' = drop (length (trace c)) (trace c')"

section \<open>The reconciler\<close>

text \<open>
  \<^verbatim>\<open>SecretReconciler\<close>: the embedded client and the map from a Claudie secret to its
  SveltosCluster. The mutex \<^verbatim>\<open>Mux\<close> shows in the history as \<open>Lock\<close> and \<open>Unlock\<close>.
\<close>

record SecretReconciler =
  Client :: client
  SecretToCluster :: "NamespacedName \<rightharpoonup> NamespacedName"

definition remit :: "SecretReconciler \<Rightarrow> event \<Rightarrow> SecretReconciler" where
  "remit r e = r\<lparr>Client := emit (Client r) e\<rparr>"

definition shouldReconcileSecret :: "Secret \<Rightarrow> bool" where
  "shouldReconcileSecret secret =
     (case secret_Labels secret of
        None \<Rightarrow> False
      | Some labels \<Rightarrow>
          if labels claudieLabel = None then False
          else if labels claudieKubeconfig = None then False
          else if labels claudieCluster = None then False
          else True)"

text \<open>Reading a key a Go map lacks, or reading a nil map, gives the empty string.\<close>

definition getSveltosClusterName :: "Secret \<Rightarrow> string" where
  "getSveltosClusterName secret =
     (case secret_Labels secret of
        None \<Rightarrow> ''''
      | Some labels \<Rightarrow> (case labels claudieCluster of None \<Rightarrow> '''' | Some v \<Rightarrow> v))"

definition getSveltosClusterNamespace :: "Secret \<Rightarrow> string" where
  "getSveltosClusterNamespace secret = secret_Namespace secret"

definition addAnnotation :: "SveltosCluster \<Rightarrow> SveltosCluster" where
  "addAnnotation sveltosCluster =
     (let annotations = (case sc_Annotations sveltosCluster of
                           None \<Rightarrow> Map.empty
                         | Some m \<Rightarrow> m)
      in sveltosCluster\<lparr>sc_Annotations :=
           Some (annotations(sveltosClusterClaudieAnnotation \<mapsto> ''ok''))\<rparr>)"

text \<open>
  The kind and the API version of the new owner reference are those of the secret object's
  \<^verbatim>\<open>TypeMeta\<close> (\<^verbatim>\<open>ToAPIVersionAndKind\<close> prints back the group and version that
  \<^verbatim>\<open>GroupVersionKind\<close> parsed).
\<close>

definition addOwnerReference :: "SveltosCluster \<Rightarrow> Secret \<Rightarrow> SveltosCluster" where
  "addOwnerReference sveltosCluster secret =
     (let onwerReferences = sc_OwnerReferences sveltosCluster in
      if list_ex (\<lambda>ref. ref_Kind ref = secret_Kind secret \<and> ref_Name ref = secret_Name secret)
           onwerReferences
      then sveltosCluster
      else sveltosCluster\<lparr>sc_OwnerReferences :=
             onwerReferences @
               [\<lparr>ref_APIVersion = secret_APIVersion secret, ref_Kind = secret_Kind secret,
                 ref_Name = secret_Name secret, ref_UID = secret_UID secret\<rparr>]\<rparr>)"

definition updateSecretToClusterMap ::
  "SecretReconciler \<Rightarrow> Secret \<Rightarrow> string \<Rightarrow> string \<Rightarrow> SecretReconciler" where
  "updateSecretToClusterMap r secret sveltosClusterNamespace sveltosClusterName =
     (let secretRef = (secret_Namespace secret, secret_Name secret);
          target = (sveltosClusterNamespace, sveltosClusterName);
          r1 = remit r Lock;
          r2 = (remit r1 (MapWrite secretRef target))
                 \<lparr>SecretToCluster := (SecretToCluster r1)(secretRef \<mapsto> target)\<rparr>
      in remit r2 Unlock)"

text \<open>
  \<^verbatim>\<open>cleanSveltosCluster\<close> takes the mutex on entry and releases it, by \<^verbatim>\<open>defer\<close>,
  when it returns.
\<close>

definition cleanSveltosCluster ::
  "SecretReconciler \<Rightarrow> NamespacedName \<Rightarrow> goerror option \<times> SecretReconciler" where
  "cleanSveltosCluster r secretRef =
     (let r1 = remit r Lock;
          secretKey = secretRef;
          r2 = remit r1 (MapRead secretKey)
      in case SecretToCluster r2 secretKey of
           None \<Rightarrow> (None, remit r2 Unlock)
         | Some sveltosClusterInfo \<Rightarrow>
             (let r3 = remit r2 (LogInfo ''removing SveltosCluster for Secret'' None);
                  (res, c4) = getCluster (Client r3) sveltosClusterInfo;
                  r4 = r3\<lparr>Client := c4\<rparr>
              in case res of
                   Inl err \<Rightarrow>
                     if IsNotFound err
                     then (None,
                           remit ((remit r4 (MapDelete secretKey))
                                    \<lparr>SecretToCluster := (SecretToCluster r4)(secretKey := None)\<rparr>)
                                 Unlock)
                     else (Some err, remit r4 Unlock)
                 | Inr sveltosCluster \<Rightarrow>
                     (let (derr, c5) = deleteCluster (Client r4) sveltosCluster;
                          r5 = r4\<lparr>Client := c5\<rparr>
                      in case derr of
                           Some err \<Rightarrow> (Some err, remit r5 Unlock)
                         | None \<Rightarrow>
                             (None,
                              remit ((remit r5 (MapDelete secretKey))
                                       \<lparr>SecretToCluster :=
                                          (SecretToCluster r5)(secretKey := None)\<rparr>)
                                    Unlock))))"

definition createSveltosCluster ::
  "SecretReconciler \<Rightarrow> Secret \<Rightarrow> goerror option \<times> SecretReconciler" where
  "createSveltosCluster r secret =
     (let r0 = remit r (LogInfo ''reconciling secret'' None);
          sveltosClusterNamespace = getSveltosClusterNamespace secret;
          sveltosClusterName = getSveltosClusterName secret;
          r1 = updateSecretToClusterMap r0 secret sveltosClusterNamespace sveltosClusterName;
          (res, c2) = getCluster (Client r1) (sveltosClusterNamespace, sveltosClusterName);
          r2 = r1\<lparr>Client := c2\<rparr>
      in case res of
           Inl err \<Rightarrow>
             if IsNotFound err
             then (let sveltosCluster =
                         addOwnerReference
                           (addAnnotation
                              (emptySveltosCluster
                                 \<lparr>sc_Namespace := sveltosClusterNamespace,
                                  sc_Name := sveltosClusterName,
                                  sc_KubeconfigName := secret_Name secret\<rparr>))
                           secret;
                       (cerr, c3) = createCluster (Client r2) sveltosCluster
                   in (cerr, r2\<lparr>Client := c3\<rparr>))
             else (Some err, r2)
         | Inr found \<Rightarrow>
             (let sveltosCluster = addOwnerReference (addAnnotation found) secret;
                  (uerr, c3) = updateCluster (Client r2) sveltosCluster
              in (uerr, r2\<lparr>Client := c3\<rparr>)))"

text \<open>
  \<^verbatim>\<open>Reconcile\<close>. In the branch of a failed fetch the variable \<^verbatim>\<open>err\<close> is overwritten
  by the result of the cleanup, and the code after the inner \<^verbatim>\<open>if\<close> logs and wraps that
  value. In the branch of a deletion timestamp the code returns only when the cleanup
  fails; otherwise control goes on to the label check below.
\<close>

definition Reconcile ::
  "SecretReconciler \<Rightarrow> NamespacedName \<Rightarrow> (Result \<times> goerror option) \<times> SecretReconciler" where
  "Reconcile r req =
     (let r0 = remit r (LogInfo ''Reconciling'' None);
          (res, c1) = getSecret (Client r0) req;
          r1 = r0\<lparr>Client := c1\<rparr>
      in case res of
           Inl ferr \<Rightarrow>
             (let (requeue, err, r2) =
                    (if IsNotFound ferr
                     then (let (cerr, rc) = cleanSveltosCluster r1 req
                           in case cerr of
                                Some e \<Rightarrow>
                                  (True, cerr, remit rc (LogInfo ''failed to reconcile'' cerr))
                              | None \<Rightarrow> (False, cerr, rc))
                     else (False, Some ferr, r1))
              in if requeue then ((requeueLater, None), r2)
                 else ((noRequeue, Wrapf err ''Failed to fetch Secret''),
                       remit r2 (LogError err ''Failed to fetch Secret'')))
         | Inr secret \<Rightarrow>
             (let (requeue, r2) =
                    (if \<not> IsZero (secret_DeletionTimestamp secret)
                     then (let (cerr, rc) = cleanSveltosCluster r1 req
                           in case cerr of
                                Some e \<Rightarrow>
                                  (True, remit rc (LogInfo ''failed to reconcile'' cerr))
                              | None \<Rightarrow> (False, rc))
                     else (False, r1))
              in if requeue then ((requeueLater, None), r2)
                 else if \<not> shouldReconcileSecret secret then ((noRequeue, None), r2)
                 else (let (err, r3) = createSveltosCluster r2 secret
                       in case err of
                            Some e \<Rightarrow>
                              ((requeueLater, None),
                               remit r3 (LogInfo ''failed to reconcile'' err))
                          | None \<Rightarrow> ((noRequeue, None), r3))))"

section \<open>The sweeper\<close>

text \<open>
  A run of the sweeper either comes back with a value and the client, or panics: Go stops
  the program when a nil pointer is dereferenced.
\<close>

datatype 'a outcome = Done 'a client | Panic string client

definition isSveltosClusterForClaudie :: "SveltosCluster \<Rightarrow> bool" where
  "isSveltosClusterForClaudie sveltosCluster =
     (case sc_Annotations sveltosCluster of
        None \<Rightarrow> False
      | Some m \<Rightarrow> m sveltosClusterClaudieAnnotation \<noteq> None)"

definition getClaudieSecret :: "SveltosCluster \<Rightarrow> NamespacedName option" where
  "getClaudieSecret sveltosCluster =
     (case find (\<lambda>ref. ref_Kind ref = ''Secret'') (sc_OwnerReferences sveltosCluster) of
        Some ref \<Rightarrow> Some (sc_Namespace sveltosCluster, ref_Name ref)
      | None \<Rightarrow> None)"

text \<open>\<^verbatim>\<open>*claudieSecret\<close> is evaluated before the store is called.\<close>

definition isClaudieSecretRemoved :: "client \<Rightarrow> NamespacedName option \<Rightarrow> bool outcome" where
  "isClaudieSecretRemoved c claudieSecret =
     (case claudieSecret of
        None \<Rightarrow> Panic ''invalid memory address or nil pointer dereference'' c
      | Some k \<Rightarrow>
          (let (res, c') = getSecret c k
           in case res of
                Inl err \<Rightarrow> Done (IsNotFound err) c'
              | Inr secret \<Rightarrow> Done (\<not> IsZero (secret_DeletionTimestamp secret)) c'))"

text \<open>The body of the loop over \<^verbatim>\<open>sveltosClusters.Items\<close>, for one item.\<close>

definition cleanStaleSveltosCluster_item :: "client \<Rightarrow> SveltosCluster \<Rightarrow> unit outcome" where
  "cleanStaleSveltosCluster_item c sveltosCluster =
     (if \<not> IsZero (sc_DeletionTimestamp sveltosCluster) then Done () c
      else if \<not> isSveltosClusterForClaudie sveltosCluster then Done () c
      else
        (let claudieSecret = getClaudieSecret sveltosCluster;
             c1 = (if claudieSecret = None
                   then emit c (LogInfo (''found SveltosCluster '' @ sc_Namespace sveltosCluster
                                  @ ''/'' @ sc_Name sveltosCluster
                                  @ '' with no Claudie reference'') None)
                   else c)
         in case isClaudieSecretRemoved c1 claudieSecret of
              Panic msg cp \<Rightarrow> Panic msg cp
            | Done removed c2 \<Rightarrow>
                if \<not> removed then Done () c2
                else (let (err, c3) = deleteCluster c2 sveltosCluster
                      in case err of
                           Some e \<Rightarrow>
                             Done () (emit c3 (LogInfo (''failed to delete sveltosCluster ''
                                        @ sc_Namespace sveltosCluster @ ''/''
                                        @ sc_Name sveltosCluster) err))
                         | None \<Rightarrow> Done () c3)))"

fun cleanStaleSveltosCluster_items :: "client \<Rightarrow> SveltosCluster list \<Rightarrow> unit outcome" where
  "cleanStaleSveltosCluster_items c [] = Done () c"
| "cleanStaleSveltosCluster_items c (sveltosCluster # rest) =
     (case cleanStaleSveltosCluster_item c sveltosCluster of
        Panic msg cp \<Rightarrow> Panic msg cp
      | Done u c' \<Rightarrow> cleanStaleSveltosCluster_items c' rest)"

text \<open>One tick: the body of the endless \<^verbatim>\<open>for\<close> of \<^verbatim>\<open>cleanStaleSveltosCluster\<close>.\<close>

definition cleanStaleSveltosCluster_tick :: "client \<Rightarrow> unit outcome" where
  "cleanStaleSveltosCluster_tick c =
     (let c0 = emit c Sleep;
          (res, c1) = listClusters c0
      in case res of
           Inl err \<Rightarrow> Done () c1
         | Inr items \<Rightarrow> cleanStaleSveltosCluster_items c1 items)"

text \<open>
  The loop never leaves by itself; \<open>cleanStaleSveltosCluster n\<close> runs its first \<open>n\<close>
  ticks and stops earlier only on a panic.
\<close>

fun cleanStaleSveltosCluster :: "nat \<Rightarrow> client \<Rightarrow> unit outcome" where
  "cleanStaleSveltosCluster 0 c = Done () c"
| "cleanStaleSveltosCluster (Suc n) c =
     (case cleanStaleSveltosCluster_tick c of
        Panic msg cp \<Rightarrow> Panic msg cp
      | Done u c' \<Rightarrow> cleanStaleSveltosCluster n c')"

text \<open>
  Whether some store call of a history is made while the mutex is held; the first argument
  says whether the mutex is held at the start.
\<close>

fun storeCallUnderLock :: "bool \<Rightarrow> event list \<Rightarrow> bool" where
  "storeCallUnderLock held [] = False"
| "storeCallUnderLock held (e # es) =
     (if e = Lock then storeCallUnderLock True es
      else if e = Unlock then storeCallUnderLock False es
      else (held \<and> isStoreCall e) \<or> storeCallUnderLock held es)"

text \<open>The client a run ended with, whether it came back or panicked.\<close>

fun finalClient :: "'a outcome \<Rightarrow> client" where
  "finalClient (Done v c) = c"
| "finalClient (Panic msg c) = c"

section \<open>Scenarios\<close>

text \<open>
  The objects of the specification's concrete scenarios: the secret \<^verbatim>\<open>ns/s1\<close> with the
  three Claudie labels, and the SveltosCluster \<^verbatim>\<open>ns/c1\<close> made for it.
\<close>

definition scenarioSecret :: Secret where
  "scenarioSecret =
     \<lparr>secret_APIVersion = ''v1'', secret_Kind = ''Secret'', secret_Namespace = ''ns'',
      secret_Name = ''s1'', secret_UID = ''u1'',
      secret_Labels = Some [claudieLabel \<mapsto> ''claudie'', claudieKubeconfig \<mapsto> ''kubeconfig'',
                            claudieCluster \<mapsto> ''c1''],
      secret_DeletionTimestamp = None\<rparr>"

definition scenarioCluster :: SveltosCluster where
  "scenarioCluster =
     \<lparr>sc_Namespace = ''ns'', sc_Name = ''c1'', sc_Labels = None,
      sc_Annotations = Some [sveltosClusterClaudieAnnotation \<mapsto> ''ok''],
      sc_OwnerReferences = [\<lparr>ref_APIVersion = ''v1'', ref_Kind = ''Secret'',
                              ref_Name = ''s1'', ref_UID = ''u1''\<rparr>],
      sc_DeletionTimestamp = None, sc_KubeconfigName = ''s1''\<rparr>"

text \<open>A store whose calls never fail, with an empty history.\<close>

definition reliableStore ::
  "(NamespacedName \<rightharpoonup> Secret) \<Rightarrow> SveltosCluster list \<Rightarrow> client" where
  "reliableStore ss cs = \<lparr>secrets = ss, clusters = cs, inject = (\<lambda>h e. None), trace = []\<rparr>"

text \<open>A store that refuses every Create, Update and Delete.\<close>

definition refusingWrites ::
  "(NamespacedName \<rightharpoonup> Secret) \<Rightarrow> SveltosCluster list \<Rightarrow> client" where
  "refusingWrites ss cs =
     \<lparr>secrets = ss, clusters = cs,
      inject = (\<lambda>h e. if isStoreWrite e then Some (StoreFailure ''refused'') else None),
      trace = []\<rparr>"

text \<open>The secret \<^verbatim>\<open>ns/s1\<close> while it is being deleted.\<close>

definition terminatingSecret :: Secret where
  "terminatingSecret = scenarioSecret\<lparr>secret_DeletionTimestamp := Some 1700000000\<rparr>"

text \<open>
  The secret \<^verbatim>\<open>ns/s1\<close> as a typed object whose \<^verbatim>\<open>TypeMeta\<close> is not filled in, as
  in the unit test of \<^verbatim>\<open>createSveltosCluster\<close>.
\<close>

definition untypedSecret :: Secret where
  "untypedSecret = scenarioSecret\<lparr>secret_APIVersion := '''', secret_Kind := ''''\<rparr>"

text \<open>A SveltosCluster with the Claudie annotation and no owner reference.\<close>

definition orphanCluster :: SveltosCluster where
  "orphanCluster = scenarioCluster\<lparr>sc_Name := ''c2'', sc_OwnerReferences := []\<rparr>"

text \<open>A SveltosCluster made by someone else: it lacks the Claudie annotation.\<close>

definition foreignCluster :: SveltosCluster where
  "foreignCluster = scenarioCluster\<lparr>sc_Annotations := None\<rparr>"

section \<open>Basic facts\<close>

lemmas store_defs =
  emit_def remit_def getSecret_def getCluster_def listClusters_def createCluster_def
  updateCluster_def deleteCluster_def findCluster_def clusterKey_def newEvents_def

lemmas scenario_defs =
  scenarioSecret_def scenarioCluster_def reliableStore_def refusingWrites_def
  claudieLabel_def claudieKubeconfig_def claudieCluster_def sveltosClusterClaudieAnnotation_def

lemmas reconciler_defs =
  Reconcile_def cleanSveltosCluster_def createSveltosCluster_def updateSecretToClusterMap_def
  shouldReconcileSecret_def getSveltosClusterName_def getSveltosClusterNamespace_def
  addAnnotation_def addOwnerReference_def emptySveltosCluster_def IsZero_def Wrapf_def
  noRequeue_def requeueLater_def Let_def

lemmas sweeper_defs =
  cleanStaleSveltosCluster_tick_def cleanStaleSveltosCluster_item_def
  isClaudieSecretRemoved_def getClaudieSecret_def isSveltosClusterForClaudie_def IsZero_def
  Let_def

subsection \<open>Effects of the store calls\<close>

lemma newEvents_append: "trace c' = trace c @ evs \<Longrightarrow> newEvents c c' = evs"
  by (simp add: newEvents_def)

lemma getSecret_client: "getSecret c k = (res, c') \<Longrightarrow> c' = emit c (CallGetSecret k)"
  by (auto simp: getSecret_def Let_def split: option.splits)

lemma getCluster_client: "getCluster c k = (res, c') \<Longrightarrow> c' = emit c (CallGetCluster k)"
  by (auto simp: getCluster_def Let_def split: option.splits)

lemma getSecret_effect:
  assumes "getSecret c k = (res, c')"
  shows "trace c' = trace c @ [CallGetSecret k]" and "clusters c' = clusters c"
  using assms by (auto simp: getSecret_def Let_def emit_def split: option.splits)

lemma filter_other_key:
  "a \<noteq> k \<Longrightarrow>
   filter (\<lambda>x. clusterKey x \<noteq> a \<and> clusterKey x = k) cs = filter (\<lambda>x. clusterKey x = k) cs"
  by (induction cs) auto

lemma deleteCluster_effect:
  assumes "deleteCluster c sc = (err, c')"
  shows "trace c' = trace c @ [CallDelete (clusterKey sc)]"
    and "clusterKey sc \<noteq> k \<Longrightarrow>
           filter (\<lambda>x. clusterKey x = k) (clusters c') = filter (\<lambda>x. clusterKey x = k) (clusters c)"
  using assms
  by (auto simp: deleteCluster_def Let_def emit_def filter_other_key split: option.splits)

lemma createCluster_trace:
  "trace (snd (createCluster c sc)) = trace c @ [CallCreate (clusterKey sc)]"
  by (simp add: createCluster_def Let_def emit_def split: option.splits)

lemma updateCluster_trace:
  "trace (snd (updateCluster c sc)) = trace c @ [CallUpdate (clusterKey sc)]"
  by (simp add: updateCluster_def Let_def emit_def split: option.splits)

lemma createCluster_traceD:
  "createCluster c sc = (e, c') \<Longrightarrow> trace c' = trace c @ [CallCreate (clusterKey sc)]"
  using createCluster_trace [of c sc] by simp

lemma updateCluster_traceD:
  "updateCluster c sc = (e, c') \<Longrightarrow> trace c' = trace c @ [CallUpdate (clusterKey sc)]"
  using updateCluster_trace [of c sc] by simp

lemma SecretToCluster_remit [simp]: "SecretToCluster (remit r e) = SecretToCluster r"
  by (simp add: remit_def)

subsection \<open>Looking up and replacing in the list of SveltosClusters\<close>

lemma find_clusterKey: "find (\<lambda>sc. clusterKey sc = k) cs = Some found \<Longrightarrow> clusterKey found = k"
  by (auto simp: find_Some_iff)

lemma find_replaced:
  "find (\<lambda>x. clusterKey x = k) cs = Some found \<Longrightarrow> clusterKey new = k \<Longrightarrow>
   find (\<lambda>x. clusterKey x = k) (map (\<lambda>x. if clusterKey x = k then new else x) cs) = Some new"
  by (induction cs) (auto split: if_splits)

lemma find_appended:
  "find (\<lambda>x. clusterKey x = k) cs = None \<Longrightarrow> clusterKey new = k \<Longrightarrow>
   find (\<lambda>x. clusterKey x = k) (cs @ [new]) = Some new"
  by (induction cs) (auto split: if_splits)

lemma replace_absent:
  "find (\<lambda>x. clusterKey x = k) cs = None \<Longrightarrow>
   map (\<lambda>x. if clusterKey x = k then new else x) cs = cs"
  by (induction cs) (auto split: if_splits)

lemma replace_twice:
  "clusterKey new = k \<Longrightarrow>
   map (\<lambda>x. if clusterKey x = k then new else x)
     (map (\<lambda>x. if clusterKey x = k then new else x) cs)
   = map (\<lambda>x. if clusterKey x = k then new else x) cs"
  by (induction cs) auto

subsection \<open>Annotation and owner reference\<close>

lemma clusterKey_addAnnotation [simp]: "clusterKey (addAnnotation sc) = clusterKey sc"
  by (simp add: clusterKey_def addAnnotation_def Let_def)

lemma clusterKey_addOwnerReference [simp]: "clusterKey (addOwnerReference sc s) = clusterKey sc"
  by (simp add: clusterKey_def addOwnerReference_def Let_def)

lemma addAnnotation_idem: "addAnnotation (addAnnotation sc) = addAnnotation sc"
  by (simp add: addAnnotation_def Let_def)

lemma addOwnerReference_idem:
  "addOwnerReference (addOwnerReference sc s) s = addOwnerReference sc s"
  by (simp add: addOwnerReference_def Let_def)

lemma addAnnotation_owner [simp]:
  "sc_OwnerReferences (addAnnotation sc) = sc_OwnerReferences sc"
  by (simp add: addAnnotation_def Let_def)

lemma addOwnerReference_annotations [simp]:
  "sc_Annotations (addOwnerReference sc s) = sc_Annotations sc"
  by (simp add: addOwnerReference_def Let_def)

lemma addAnnotation_addOwnerReference_commute:
  "addAnnotation (addOwnerReference sc s) = addOwnerReference (addAnnotation sc) s"
  by (simp add: addAnnotation_def addOwnerReference_def Let_def)

lemma refresh_idem:
  "addOwnerReference (addAnnotation (addOwnerReference (addAnnotation sc) s)) s
     = addOwnerReference (addAnnotation sc) s"
  by (simp add: addAnnotation_addOwnerReference_commute addAnnotation_idem
      addOwnerReference_idem)

lemma refresh_fixed:
  assumes "sc_Annotations sc = Some m" and "m sveltosClusterClaudieAnnotation = Some ''ok''"
    and "list_ex (\<lambda>ref. ref_Kind ref = secret_Kind s \<and> ref_Name ref = secret_Name s)
           (sc_OwnerReferences sc)"
  shows "addOwnerReference (addAnnotation sc) s = sc"
proof -
  have "m(sveltosClusterClaudieAnnotation \<mapsto> ''ok'') = m"
    using assms(2) by (simp add: map_upd_triv)
  then have "addAnnotation sc = sc"
    using assms(1) by (simp add: addAnnotation_def Let_def)
  then show ?thesis
    using assms(3) by (simp add: addOwnerReference_def Let_def)
qed

subsection \<open>The create-or-update pass\<close>

lemma updateSecretToClusterMap_index:
  "SecretToCluster (updateSecretToClusterMap r secret ns nm)
     = (SecretToCluster r)((secret_Namespace secret, secret_Name secret) \<mapsto> (ns, nm))"
  by (simp add: updateSecretToClusterMap_def Let_def remit_def)

lemma updateSecretToClusterMap_client:
  "Client (updateSecretToClusterMap r secret ns nm)
     = (Client r)\<lparr>trace := trace (Client r) @
         [Lock, MapWrite (secret_Namespace secret, secret_Name secret) (ns, nm), Unlock]\<rparr>"
  by (simp add: updateSecretToClusterMap_def Let_def remit_def emit_def)

lemma eligible_name:
  "secret_Labels s = Some m \<Longrightarrow> m claudieCluster = Some cn \<Longrightarrow> getSveltosClusterName s = cn"
  by (simp add: getSveltosClusterName_def)

lemma eligible_should:
  "secret_Labels s = Some m \<Longrightarrow> m claudieLabel \<noteq> None \<Longrightarrow> m claudieKubeconfig \<noteq> None \<Longrightarrow>
   m claudieCluster \<noteq> None \<Longrightarrow> shouldReconcileSecret s"
  by (simp add: shouldReconcileSecret_def)

lemma createSveltosCluster_absent:
  assumes nofault: "\<And>h e. inject (Client r) h e = None"
    and absent: "findCluster (Client r) (secret_Namespace s, getSveltosClusterName s) = None"
  shows "fst (createSveltosCluster r s) = None"
    and "clusters (Client (snd (createSveltosCluster r s))) =
           clusters (Client r) @
             [addOwnerReference
                (addAnnotation
                   (emptySveltosCluster
                      \<lparr>sc_Namespace := secret_Namespace s,
                       sc_Name := getSveltosClusterName s,
                       sc_KubeconfigName := secret_Name s\<rparr>)) s]"
    and "trace (Client (snd (createSveltosCluster r s))) =
           trace (Client r) @
             [LogInfo ''reconciling secret'' None, Lock,
              MapWrite (secret_Namespace s, secret_Name s)
                (secret_Namespace s, getSveltosClusterName s),
              Unlock,
              CallGetCluster (secret_Namespace s, getSveltosClusterName s),
              CallCreate (secret_Namespace s, getSveltosClusterName s)]"
    and "SecretToCluster (snd (createSveltosCluster r s)) =
           (SecretToCluster r)((secret_Namespace s, secret_Name s) \<mapsto>
              (secret_Namespace s, getSveltosClusterName s))"
    and "inject (Client (snd (createSveltosCluster r s))) = inject (Client r)"
    and "secrets (Client (snd (createSveltosCluster r s))) = secrets (Client r)"
  using absent
  by (simp_all add: createSveltosCluster_def updateSecretToClusterMap_def Let_def nofault
      getSveltosClusterNamespace_def remit_def emit_def getCluster_def createCluster_def
      findCluster_def clusterKey_def emptySveltosCluster_def addAnnotation_def
      addOwnerReference_def)

lemma createSveltosCluster_present:
  assumes nofault: "\<And>h e. inject (Client r) h e = None"
    and present: "findCluster (Client r) (secret_Namespace s, getSveltosClusterName s) = Some found"
  shows "fst (createSveltosCluster r s) = None"
    and "clusters (Client (snd (createSveltosCluster r s))) =
           map (\<lambda>x. if clusterKey x = (secret_Namespace s, getSveltosClusterName s)
                    then addOwnerReference (addAnnotation found) s else x)
             (clusters (Client r))"
    and "trace (Client (snd (createSveltosCluster r s))) =
           trace (Client r) @
             [LogInfo ''reconciling secret'' None, Lock,
              MapWrite (secret_Namespace s, secret_Name s)
                (secret_Namespace s, getSveltosClusterName s),
              Unlock,
              CallGetCluster (secret_Namespace s, getSveltosClusterName s),
              CallUpdate (secret_Namespace s, getSveltosClusterName s)]"
    and "SecretToCluster (snd (createSveltosCluster r s)) =
           (SecretToCluster r)((secret_Namespace s, secret_Name s) \<mapsto>
              (secret_Namespace s, getSveltosClusterName s))"
    and "inject (Client (snd (createSveltosCluster r s))) = inject (Client r)"
    and "secrets (Client (snd (createSveltosCluster r s))) = secrets (Client r)"
proof -
  have k: "clusterKey found = (secret_Namespace s, getSveltosClusterName s)"
    using present by (auto simp: findCluster_def dest: find_clusterKey)
  show "fst (createSveltosCluster r s) = None"
    and "clusters (Client (snd (createSveltosCluster r s))) =
           map (\<lambda>x. if clusterKey x = (secret_Namespace s, getSveltosClusterName s)
                    then addOwnerReference (addAnnotation found) s else x)
             (clusters (Client r))"
    and "trace (Client (snd (createSveltosCluster r s))) =
           trace (Client r) @
             [LogInfo ''reconciling secret'' None, Lock,
              MapWrite (secret_Namespace s, secret_Name s)
                (secret_Namespace s, getSveltosClusterName s),
              Unlock,
              CallGetCluster (secret_Namespace s, getSveltosClusterName s),
              CallUpdate (secret_Namespace s, getSveltosClusterName s)]"
    and "SecretToCluster (snd (createSveltosCluster r s)) =
           (SecretToCluster r)((secret_Namespace s, secret_Name s) \<mapsto>
              (secret_Namespace s, getSveltosClusterName s))"
    and "inject (Client (snd (createSveltosCluster r s))) = inject (Client r)"
    and "secrets (Client (snd (createSveltosCluster r s))) = secrets (Client r)"
    using present k
    by (simp_all add: createSveltosCluster_def updateSecretToClusterMap_def Let_def nofault
        getSveltosClusterNamespace_def remit_def emit_def getCluster_def updateCluster_def
        findCluster_def)
qed

lemma createSveltosCluster_reliable:
  assumes nofault: "\<And>h e. inject (Client r) h e = None"
  shows "fst (createSveltosCluster r s) = None"
    and "SecretToCluster (snd (createSveltosCluster r s)) =
           (SecretToCluster r)((secret_Namespace s, secret_Name s) \<mapsto>
              (secret_Namespace s, getSveltosClusterName s))"
    and "inject (Client (snd (createSveltosCluster r s))) = inject (Client r)"
    and "secrets (Client (snd (createSveltosCluster r s))) = secrets (Client r)"
proof -
  show "fst (createSveltosCluster r s) = None"
  proof (cases "findCluster (Client r) (secret_Namespace s, getSveltosClusterName s)")
    case None
    show ?thesis by (rule createSveltosCluster_absent(1) [OF nofault None])
  next
    case (Some found)
    show ?thesis by (rule createSveltosCluster_present(1) [OF nofault Some])
  qed
  show "SecretToCluster (snd (createSveltosCluster r s)) =
           (SecretToCluster r)((secret_Namespace s, secret_Name s) \<mapsto>
              (secret_Namespace s, getSveltosClusterName s))"
  proof (cases "findCluster (Client r) (secret_Namespace s, getSveltosClusterName s)")
    case None
    show ?thesis by (rule createSveltosCluster_absent(4) [OF nofault None])
  next
    case (Some found)
    show ?thesis by (rule createSveltosCluster_present(4) [OF nofault Some])
  qed
  show "inject (Client (snd (createSveltosCluster r s))) = inject (Client r)"
  proof (cases "findCluster (Client r) (secret_Namespace s, getSveltosClusterName s)")
    case None
    show ?thesis by (rule createSveltosCluster_absent(5) [OF nofault None])
  next
    case (Some found)
    show ?thesis by (rule createSveltosCluster_present(5) [OF nofault Some])
  qed
  show "secrets (Client (snd (createSveltosCluster r s))) = secrets (Client r)"
  proof (cases "findCluster (Client r) (secret_Namespace s, getSveltosClusterName s)")
    case None
    show ?thesis by (rule createSveltosCluster_absent(6) [OF nofault None])
  next
    case (Some found)
    show ?thesis by (rule createSveltosCluster_present(6) [OF nofault Some])
  qed
qed

lemma Reconcile_eligible:
  assumes nofault: "\<And>h e. inject (Client r) h e = None"
    and stored: "secrets (Client r) req = Some s"
    and live: "IsZero (secret_DeletionTimestamp s)"
    and elig: "shouldReconcileSecret s"
  shows "Reconcile r req =
           ((if fst (createSveltosCluster
                      (r\<lparr>Client := (Client r)\<lparr>trace := trace (Client r) @
                           [LogInfo ''Reconciling'' None, CallGetSecret req]\<rparr>\<rparr>) s) = None
             then noRequeue else requeueLater, None),
            (let r3 = snd (createSveltosCluster
                      (r\<lparr>Client := (Client r)\<lparr>trace := trace (Client r) @
                           [LogInfo ''Reconciling'' None, CallGetSecret req]\<rparr>\<rparr>) s)
             in if fst (createSveltosCluster
                      (r\<lparr>Client := (Client r)\<lparr>trace := trace (Client r) @
                           [LogInfo ''Reconciling'' None, CallGetSecret req]\<rparr>\<rparr>) s) = None
                then r3
                else remit r3 (LogInfo ''failed to reconcile''
                       (fst (createSveltosCluster
                      (r\<lparr>Client := (Client r)\<lparr>trace := trace (Client r) @
                           [LogInfo ''Reconciling'' None, CallGetSecret req]\<rparr>\<rparr>) s)))))"
  using stored live elig
  by (simp add: Reconcile_def Let_def nofault getSecret_def remit_def emit_def
      split: prod.splits option.splits)

lemma Reconcile_refresh:
  assumes nofault: "\<And>h e. inject (Client a) h e = None"
    and stored: "secrets (Client a) req = Some s"
    and live: "IsZero (secret_DeletionTimestamp s)"
    and elig: "shouldReconcileSecret s"
    and found: "findCluster (Client a) (secret_Namespace s, getSveltosClusterName s) = Some sc1"
    and fixed: "addOwnerReference (addAnnotation sc1) s = sc1"
    and same: "map (\<lambda>x. if clusterKey x = (secret_Namespace s, getSveltosClusterName s)
                          then sc1 else x) (clusters (Client a)) = clusters (Client a)"
  shows "fst (Reconcile a req) = (noRequeue, None)"
    and "clusters (Client (snd (Reconcile a req))) = clusters (Client a)"
    and "SecretToCluster (snd (Reconcile a req)) =
           (SecretToCluster a)((secret_Namespace s, secret_Name s) \<mapsto>
              (secret_Namespace s, getSveltosClusterName s))"
proof -
  let ?a1 = "a\<lparr>Client := (Client a)\<lparr>trace := trace (Client a) @
                 [LogInfo ''Reconciling'' None, CallGetSecret req]\<rparr>\<rparr>"
  have nofault1: "\<And>h e. inject (Client ?a1) h e = None"
    by (simp add: nofault)
  have f1: "findCluster (Client ?a1) (secret_Namespace s, getSveltosClusterName s) = Some sc1"
    using found by (simp add: findCluster_def)
  note D = createSveltosCluster_present [of ?a1 s, OF nofault1 f1]
  have R: "Reconcile a req = ((noRequeue, None), snd (createSveltosCluster ?a1 s))"
    using Reconcile_eligible [OF nofault stored live elig] D(1) by (simp add: Let_def)
  show "fst (Reconcile a req) = (noRequeue, None)"
    by (simp add: R)
  have "clusters (Client (snd (Reconcile a req))) =
          map (\<lambda>x. if clusterKey x = (secret_Namespace s, getSveltosClusterName s)
                   then addOwnerReference (addAnnotation sc1) s else x) (clusters (Client a))"
    by (simp add: R D(2))
  then show "clusters (Client (snd (Reconcile a req))) = clusters (Client a)"
    by (simp only: fixed same)
  show "SecretToCluster (snd (Reconcile a req)) =
           (SecretToCluster a)((secret_Namespace s, secret_Name s) \<mapsto>
              (secret_Namespace s, getSveltosClusterName s))"
    by (simp add: R D(4))
qed

lemma Reconcile_first_pass:
  assumes nofault: "\<And>h e. inject (Client r) h e = None"
    and stored: "secrets (Client r) req = Some s"
    and live: "IsZero (secret_DeletionTimestamp s)"
    and elig: "shouldReconcileSecret s"
  shows "fst (Reconcile r req) = (noRequeue, None)"
    and "inject (Client (snd (Reconcile r req))) = inject (Client r)"
    and "secrets (Client (snd (Reconcile r req))) = secrets (Client r)"
    and "SecretToCluster (snd (Reconcile r req)) =
           (SecretToCluster r)((secret_Namespace s, secret_Name s) \<mapsto>
              (secret_Namespace s, getSveltosClusterName s))"
    and "\<exists>sc1. findCluster (Client (snd (Reconcile r req)))
                  (secret_Namespace s, getSveltosClusterName s) = Some sc1
               \<and> addOwnerReference (addAnnotation sc1) s = sc1
               \<and> map (\<lambda>x. if clusterKey x = (secret_Namespace s, getSveltosClusterName s)
                            then sc1 else x) (clusters (Client (snd (Reconcile r req))))
                    = clusters (Client (snd (Reconcile r req)))"
proof -
  let ?k = "(secret_Namespace s, getSveltosClusterName s)"
  let ?init = "emptySveltosCluster\<lparr>sc_Namespace := secret_Namespace s,
                 sc_Name := getSveltosClusterName s, sc_KubeconfigName := secret_Name s\<rparr>"
  let ?r1 = "r\<lparr>Client := (Client r)\<lparr>trace := trace (Client r) @
                 [LogInfo ''Reconciling'' None, CallGetSecret req]\<rparr>\<rparr>"
  have nofault1: "\<And>h e. inject (Client ?r1) h e = None"
    by (simp add: nofault)
  have kinit: "clusterKey ?init = ?k"
    by (simp add: clusterKey_def)
  note G = createSveltosCluster_reliable [of ?r1 s, OF nofault1]
  have R: "Reconcile r req = ((noRequeue, None), snd (createSveltosCluster ?r1 s))"
    using Reconcile_eligible [OF nofault stored live elig] G(1) by (simp add: Let_def)
  show "fst (Reconcile r req) = (noRequeue, None)"
    by (simp add: R)
  show "inject (Client (snd (Reconcile r req))) = inject (Client r)"
    using G(3) by (simp add: R)
  show "secrets (Client (snd (Reconcile r req))) = secrets (Client r)"
    using G(4) by (simp add: R)
  show "SecretToCluster (snd (Reconcile r req)) =
           (SecretToCluster r)((secret_Namespace s, secret_Name s) \<mapsto> ?k)"
    using G(2) by (simp add: R)
  show "\<exists>sc1. findCluster (Client (snd (Reconcile r req))) ?k = Some sc1
               \<and> addOwnerReference (addAnnotation sc1) s = sc1
               \<and> map (\<lambda>x. if clusterKey x = ?k then sc1 else x)
                     (clusters (Client (snd (Reconcile r req))))
                    = clusters (Client (snd (Reconcile r req)))"
  proof (cases "findCluster (Client ?r1) ?k")
    case None
    have cl: "clusters (Client (snd (Reconcile r req))) =
                clusters (Client r) @ [addOwnerReference (addAnnotation ?init) s]"
      using createSveltosCluster_absent(2) [of ?r1 s, OF nofault1 None] by (simp add: R)
    have n: "find (\<lambda>x. clusterKey x = ?k) (clusters (Client r)) = None"
      using None by (simp add: findCluster_def)
    have k1: "clusterKey (addOwnerReference (addAnnotation ?init) s) = ?k"
      using kinit by simp
    have a: "findCluster (Client (snd (Reconcile r req))) ?k
               = Some (addOwnerReference (addAnnotation ?init) s)"
      unfolding findCluster_def cl by (rule find_appended [OF n k1])
    have b: "map (\<lambda>x. if clusterKey x = ?k then addOwnerReference (addAnnotation ?init) s else x)
               (clusters (Client (snd (Reconcile r req))))
             = clusters (Client (snd (Reconcile r req)))"
      unfolding cl using replace_absent [OF n] k1 by simp
    show ?thesis
      using a b refresh_idem [of ?init s] by blast
  next
    case (Some found)
    have cl: "clusters (Client (snd (Reconcile r req))) =
                map (\<lambda>x. if clusterKey x = ?k then addOwnerReference (addAnnotation found) s else x)
                  (clusters (Client r))"
      using createSveltosCluster_present(2) [of ?r1 s, OF nofault1 Some] by (simp add: R)
    have p: "find (\<lambda>x. clusterKey x = ?k) (clusters (Client r)) = Some found"
      using Some by (simp add: findCluster_def)
    have k1: "clusterKey (addOwnerReference (addAnnotation found) s) = ?k"
      using find_clusterKey [OF p] by simp
    have a: "findCluster (Client (snd (Reconcile r req))) ?k
               = Some (addOwnerReference (addAnnotation found) s)"
      unfolding findCluster_def cl by (rule find_replaced [OF p k1])
    have b: "map (\<lambda>x. if clusterKey x = ?k then addOwnerReference (addAnnotation found) s else x)
               (clusters (Client (snd (Reconcile r req))))
             = clusters (Client (snd (Reconcile r req)))"
      unfolding cl by (rule replace_twice [OF k1])
    show ?thesis
      using a b refresh_idem [of found s] by blast
  qed
qed

lemma Reconcile_twice:
  assumes nofault: "\<And>h e. inject (Client r) h e = None"
    and stored: "secrets (Client r) req = Some s"
    and live: "IsZero (secret_DeletionTimestamp s)"
    and elig: "shouldReconcileSecret s"
  shows "clusters (Client (snd (Reconcile (snd (Reconcile r req)) req)))
           = clusters (Client (snd (Reconcile r req)))"
    and "SecretToCluster (snd (Reconcile (snd (Reconcile r req)) req))
           = SecretToCluster (snd (Reconcile r req))"
    and "fst (Reconcile (snd (Reconcile r req)) req) = fst (Reconcile r req)"
proof -
  note F = Reconcile_first_pass [OF nofault stored live elig]
  let ?a = "snd (Reconcile r req)"
  have nofault2: "\<And>h e. inject (Client ?a) h e = None"
    by (simp add: F(2) nofault)
  have stored2: "secrets (Client ?a) req = Some s"
    by (simp add: F(3) stored)
  from F(5) obtain sc1 where
        f1: "findCluster (Client ?a) (secret_Namespace s, getSveltosClusterName s) = Some sc1"
    and fx: "addOwnerReference (addAnnotation sc1) s = sc1"
    and m1: "map (\<lambda>x. if clusterKey x = (secret_Namespace s, getSveltosClusterName s)
                        then sc1 else x) (clusters (Client ?a)) = clusters (Client ?a)"
    by blast
  note S = Reconcile_refresh [OF nofault2 stored2 live elig f1 fx m1]
  show "clusters (Client (snd (Reconcile ?a req))) = clusters (Client ?a)"
    by (rule S(2))
  show "SecretToCluster (snd (Reconcile ?a req)) = SecretToCluster ?a"
    unfolding S(3) F(4) by simp
  show "fst (Reconcile ?a req) = fst (Reconcile r req)"
    unfolding S(1) F(1) by (rule refl)
qed

subsection \<open>Histories\<close>

lemma updateSecretToClusterMap_events:
  "trace (Client (updateSecretToClusterMap r secret ns nm))
     = trace (Client r) @ [Lock, MapWrite (secret_Namespace secret, secret_Name secret) (ns, nm), Unlock]"
  by (simp add: updateSecretToClusterMap_def Let_def remit_def emit_def)

lemma createSveltosCluster_events:
  "\<exists>rest. trace (Client (snd (createSveltosCluster r secret)))
           = trace (Client r) @
               [LogInfo ''reconciling secret'' None, Lock,
                MapWrite (secret_Namespace secret, secret_Name secret)
                  (secret_Namespace secret, getSveltosClusterName secret),
                Unlock, CallGetCluster (secret_Namespace secret, getSveltosClusterName secret)] @ rest
         \<and> Lock \<notin> set rest"
  by (auto simp: createSveltosCluster_def updateSecretToClusterMap_def Let_def
        getSveltosClusterNamespace_def remit_def emit_def getCluster_def createCluster_def
        updateCluster_def split: option.splits sum.splits prod.splits)

lemma storeCallUnderLock_unlocked:
  "Lock \<notin> set es \<Longrightarrow> \<not> storeCallUnderLock False es"
  by (induction es) auto

lemma cleanSveltosCluster_events:
  "\<exists>mid. trace (Client (snd (cleanSveltosCluster r secretKey)))
           = trace (Client r) @ Lock # mid @ [Unlock]
         \<and> Lock \<notin> set mid \<and> Unlock \<notin> set mid
         \<and> (SecretToCluster r secretKey \<noteq> None \<longrightarrow> (\<exists>e\<in>set mid. isStoreCall e))"
  by (auto simp: cleanSveltosCluster_def Let_def remit_def emit_def getCluster_def
        deleteCluster_def split: option.splits sum.splits prod.splits)

lemma storeCallUnderLock_locked:
  "Unlock \<notin> set es \<Longrightarrow> \<exists>e\<in>set es. isStoreCall e \<Longrightarrow> storeCallUnderLock True (es @ rest)"
  by (induction es) auto

subsection \<open>One item and one tick of the sweep\<close>

lemma item_skip:
  "\<not> IsZero (sc_DeletionTimestamp sc) \<or> \<not> isSveltosClusterForClaudie sc \<Longrightarrow>
   cleanStaleSveltosCluster_item c sc = Done () c"
  by (auto simp: cleanStaleSveltosCluster_item_def)

lemma item_other:
  assumes other: "clusterKey sc \<noteq> k"
  shows "(\<exists>evs. trace (finalClient (cleanStaleSveltosCluster_item c sc)) = trace c @ evs
             \<and> CallDelete k \<notin> set evs)
       \<and> filter (\<lambda>x. clusterKey x = k) (clusters (finalClient (cleanStaleSveltosCluster_item c sc)))
           = filter (\<lambda>x. clusterKey x = k) (clusters c)"
proof (cases "\<not> IsZero (sc_DeletionTimestamp sc) \<or> \<not> isSveltosClusterForClaudie sc")
  case True
  then show ?thesis by (simp add: item_skip)
next
  case False
  show ?thesis
  proof (cases "getClaudieSecret sc")
    case None
    then show ?thesis using False
      by (simp add: cleanStaleSveltosCluster_item_def isClaudieSecretRemoved_def Let_def emit_def)
  next
    case (Some owner)
    obtain res c2 where g: "getSecret c owner = (res, c2)"
      by (cases "getSecret c owner")
    note G = getSecret_effect [OF g]
    obtain err c3 where d: "deleteCluster c2 sc = (err, c3)"
      by (cases "deleteCluster c2 sc")
    note D = deleteCluster_effect [OF d]
    show ?thesis
      using False Some g d G D(1) D(2) [OF other] other
      by (auto simp: cleanStaleSveltosCluster_item_def isClaudieSecretRemoved_def Let_def
            emit_def split: sum.splits option.splits)
  qed
qed

lemma items_other:
  assumes "\<forall>x\<in>set items. clusterKey x = k \<longrightarrow>
             \<not> IsZero (sc_DeletionTimestamp x) \<or> \<not> isSveltosClusterForClaudie x"
  shows "(\<exists>evs. trace (finalClient (cleanStaleSveltosCluster_items c items)) = trace c @ evs
             \<and> CallDelete k \<notin> set evs)
       \<and> filter (\<lambda>x. clusterKey x = k) (clusters (finalClient (cleanStaleSveltosCluster_items c items)))
           = filter (\<lambda>x. clusterKey x = k) (clusters c)"
  using assms
proof (induction items arbitrary: c)
  case Nil
  then show ?case by simp
next
  case (Cons sc rest)
  have step: "(\<exists>evs. trace (finalClient (cleanStaleSveltosCluster_item c sc)) = trace c @ evs
             \<and> CallDelete k \<notin> set evs)
       \<and> filter (\<lambda>x. clusterKey x = k) (clusters (finalClient (cleanStaleSveltosCluster_item c sc)))
           = filter (\<lambda>x. clusterKey x = k) (clusters c)"
  proof (cases "clusterKey sc = k")
    case True
    with Cons.prems have "\<not> IsZero (sc_DeletionTimestamp sc) \<or> \<not> isSveltosClusterForClaudie sc"
      by simp
    then show ?thesis by (simp add: item_skip)
  next
    case False
    then show ?thesis by (rule item_other)
  qed
  show ?case
  proof (cases "cleanStaleSveltosCluster_item c sc")
    case (Panic msg cp)
    then show ?thesis using step by simp
  next
    case (Done u c')
    have rest: "\<forall>x\<in>set rest. clusterKey x = k \<longrightarrow>
             \<not> IsZero (sc_DeletionTimestamp x) \<or> \<not> isSveltosClusterForClaudie x"
      using Cons.prems by simp
    from Cons.IH [OF rest, of c'] step Done show ?thesis
      by auto
  qed
qed

lemma tick_other:
  assumes "\<forall>x\<in>set (clusters c). clusterKey x = k \<longrightarrow>
             \<not> IsZero (sc_DeletionTimestamp x) \<or> \<not> isSveltosClusterForClaudie x"
  shows "CallDelete k \<notin> set (newEvents c (finalClient (cleanStaleSveltosCluster_tick c)))"
    and "filter (\<lambda>x. clusterKey x = k) (clusters (finalClient (cleanStaleSveltosCluster_tick c)))
           = filter (\<lambda>x. clusterKey x = k) (clusters c)"
proof -
  let ?c1 = "emit (emit c Sleep) CallList"
  have both: "(\<exists>evs. trace (finalClient (cleanStaleSveltosCluster_tick c)) = trace c @ evs
             \<and> CallDelete k \<notin> set evs)
       \<and> filter (\<lambda>x. clusterKey x = k) (clusters (finalClient (cleanStaleSveltosCluster_tick c)))
           = filter (\<lambda>x. clusterKey x = k) (clusters c)"
  proof (cases "inject c (trace c @ [Sleep]) CallList")
    case (Some e)
    then show ?thesis
      by (simp add: cleanStaleSveltosCluster_tick_def listClusters_def Let_def emit_def)
  next
    case None
    have t: "cleanStaleSveltosCluster_tick c = cleanStaleSveltosCluster_items ?c1 (clusters c)"
      using None by (simp add: cleanStaleSveltosCluster_tick_def listClusters_def Let_def emit_def)
    from items_other [OF assms, of ?c1] show ?thesis
      by (auto simp: t emit_def)
  qed
  then obtain evs where e: "trace (finalClient (cleanStaleSveltosCluster_tick c)) = trace c @ evs"
    and n: "CallDelete k \<notin> set evs" by blast
  show "CallDelete k \<notin> set (newEvents c (finalClient (cleanStaleSveltosCluster_tick c)))"
    using n by (simp add: newEvents_append [OF e])
  show "filter (\<lambda>x. clusterKey x = k) (clusters (finalClient (cleanStaleSveltosCluster_tick c)))
           = filter (\<lambda>x. clusterKey x = k) (clusters c)"
    using both by blast
qed

section \<open>The event reconciler\<close>

text \<open>
  C1, as stated, at the untyped secret. The owner reference that \<open>addOwnerReference\<close>
  writes takes its kind from the secret object's type information; for an eligible secret
  whose type information is empty, the one SveltosCluster that the pass creates has one owner
  reference, named after the secret, whose kind is empty and not \<^verbatim>\<open>Secret\<close>.
\<close>

theorem Reconcile_untyped_secret_owner:
  "map sc_OwnerReferences
     (clusters (Client (snd (Reconcile
        \<lparr>Client = reliableStore [(''ns'', ''s1'') \<mapsto> untypedSecret] [],
         SecretToCluster = Map.empty\<rparr> (''ns'', ''s1'')))))
     = [[\<lparr>ref_APIVersion = '''', ref_Kind = '''', ref_Name = ''s1'', ref_UID = ''u1''\<rparr>]]"
  by (simp add: reconciler_defs store_defs scenario_defs untypedSecret_def)

text \<open>
  C1, amended. For an eligible secret (three labels, no deletion timestamp) held by a store
  whose calls do not fail and which has no SveltosCluster under the secret's namespace and
  cluster-name label, one pass of \<open>Reconcile\<close> succeeds without requeue, makes exactly one
  write to the store, a Create, and adds exactly one SveltosCluster: its namespace is the
  secret's, its name the value of the cluster-name label, its \<open>KubeconfigName\<close> the
  secret's name, its only annotation \<^verbatim>\<open>projectsveltos.io/claudie: ok\<close>, no labels,
  and exactly one owner reference, which carries the secret's name and UID and the kind and
  API version of the secret object's type information.
\<close>

theorem Reconcile_creates_cluster:
  assumes nofault: "\<And>h e. inject (Client r) h e = None"
    and stored: "secrets (Client r) req = Some s"
    and live: "IsZero (secret_DeletionTimestamp s)"
    and labels: "secret_Labels s = Some m"
    and l1: "m claudieLabel \<noteq> None"
    and l2: "m claudieKubeconfig \<noteq> None"
    and l3: "m claudieCluster = Some cn"
    and absent: "findCluster (Client r) (secret_Namespace s, cn) = None"
  shows "fst (Reconcile r req) = (\<lparr>Requeue = False, RequeueAfter = 0\<rparr>, None)
       \<and> clusters (Client (snd (Reconcile r req))) =
           clusters (Client r) @
             [\<lparr>sc_Namespace = secret_Namespace s, sc_Name = cn, sc_Labels = None,
               sc_Annotations = Some [sveltosClusterClaudieAnnotation \<mapsto> ''ok''],
               sc_OwnerReferences =
                 [\<lparr>ref_APIVersion = secret_APIVersion s, ref_Kind = secret_Kind s,
                   ref_Name = secret_Name s, ref_UID = secret_UID s\<rparr>],
               sc_DeletionTimestamp = None, sc_KubeconfigName = secret_Name s\<rparr>]
       \<and> filter isStoreWrite (newEvents (Client r) (Client (snd (Reconcile r req))))
           = [CallCreate (secret_Namespace s, cn)]"
proof -
  let ?r1 = "r\<lparr>Client := (Client r)\<lparr>trace := trace (Client r) @
                 [LogInfo ''Reconciling'' None, CallGetSecret req]\<rparr>\<rparr>"
  have nm: "getSveltosClusterName s = cn"
    using labels l3 by (rule eligible_name)
  have elig: "shouldReconcileSecret s"
    using labels l1 l2 l3 by (simp add: eligible_should)
  have nofault1: "\<And>h e. inject (Client ?r1) h e = None"
    by (simp add: nofault)
  have absent1: "findCluster (Client ?r1) (secret_Namespace s, getSveltosClusterName s) = None"
    using absent nm by (simp add: findCluster_def)
  note C = createSveltosCluster_absent [of ?r1 s, OF nofault1 absent1]
  have R: "Reconcile r req = ((noRequeue, None), snd (createSveltosCluster ?r1 s))"
    using Reconcile_eligible [OF nofault stored live elig] C(1) by (simp add: Let_def)
  show ?thesis
    by (simp add: R C(2) C(3) nm noRequeue_def newEvents_def emptySveltosCluster_def
        addAnnotation_def addOwnerReference_def Let_def)
qed

theorem Reconcile_creates_cluster_witness:
  "fst (Reconcile \<lparr>Client = reliableStore [(''ns'', ''s1'') \<mapsto> scenarioSecret] [],
                    SecretToCluster = Map.empty\<rparr> (''ns'', ''s1''))
     = (\<lparr>Requeue = False, RequeueAfter = 0\<rparr>, None)
   \<and> clusters (Client (snd (Reconcile
         \<lparr>Client = reliableStore [(''ns'', ''s1'') \<mapsto> scenarioSecret] [],
          SecretToCluster = Map.empty\<rparr> (''ns'', ''s1'')))) = [scenarioCluster]"
proof -
  let ?r = "\<lparr>Client = reliableStore [(''ns'', ''s1'') \<mapsto> scenarioSecret] [],
             SecretToCluster = Map.empty\<rparr>"
  let ?m = "[claudieLabel \<mapsto> ''claudie'', claudieKubeconfig \<mapsto> ''kubeconfig'',
             claudieCluster \<mapsto> ''c1'']"
  have h1: "\<And>h e. inject (Client ?r) h e = None"
    by (simp add: scenario_defs)
  have h2: "secrets (Client ?r) (''ns'', ''s1'') = Some scenarioSecret"
    by (simp add: reliableStore_def)
  have h3: "IsZero (secret_DeletionTimestamp scenarioSecret)"
    by (simp add: IsZero_def scenarioSecret_def)
  have h4: "secret_Labels scenarioSecret = Some ?m"
    by (simp add: scenarioSecret_def)
  have h5: "?m claudieLabel \<noteq> None"
    by (simp add: scenario_defs)
  have h6: "?m claudieKubeconfig \<noteq> None"
    by (simp add: scenario_defs)
  have h7: "?m claudieCluster = Some ''c1''"
    by (simp add: scenario_defs)
  have h8: "findCluster (Client ?r) (secret_Namespace scenarioSecret, ''c1'') = None"
    by (simp add: findCluster_def reliableStore_def)
  show ?thesis
    using Reconcile_creates_cluster [OF h1 h2 h3 h4 h5 h6 h7 h8]
    by (simp add: scenario_defs)
qed

text \<open>
  C2, at a terminating secret. The secret \<^verbatim>\<open>ns/s1\<close> carries a deletion timestamp and
  the three labels, its SveltosCluster \<^verbatim>\<open>ns/c1\<close> exists and is recorded in the map.
  \<open>Reconcile\<close> runs the cleanup, which deletes the SveltosCluster and drops the map entry;
  as the cleanup returned no error the code does not return, passes the label check, and
  runs the create-or-update pass: the map entry is written again and the SveltosCluster is
  created again.
\<close>

theorem Reconcile_terminating_secret_recreates:
  "fst (Reconcile \<lparr>Client = reliableStore [(''ns'', ''s1'') \<mapsto> terminatingSecret]
                               [scenarioCluster],
                    SecretToCluster = [(''ns'', ''s1'') \<mapsto> (''ns'', ''c1'')]\<rparr> (''ns'', ''s1''))
     = (\<lparr>Requeue = False, RequeueAfter = 0\<rparr>, None)
   \<and> clusters (Client (snd (Reconcile
         \<lparr>Client = reliableStore [(''ns'', ''s1'') \<mapsto> terminatingSecret] [scenarioCluster],
          SecretToCluster = [(''ns'', ''s1'') \<mapsto> (''ns'', ''c1'')]\<rparr> (''ns'', ''s1''))))
       = [scenarioCluster]
   \<and> SecretToCluster (snd (Reconcile
         \<lparr>Client = reliableStore [(''ns'', ''s1'') \<mapsto> terminatingSecret] [scenarioCluster],
          SecretToCluster = [(''ns'', ''s1'') \<mapsto> (''ns'', ''c1'')]\<rparr> (''ns'', ''s1'')))
         (''ns'', ''s1'') = Some (''ns'', ''c1'')
   \<and> trace (Client (snd (Reconcile
         \<lparr>Client = reliableStore [(''ns'', ''s1'') \<mapsto> terminatingSecret] [scenarioCluster],
          SecretToCluster = [(''ns'', ''s1'') \<mapsto> (''ns'', ''c1'')]\<rparr> (''ns'', ''s1''))))
       = [LogInfo ''Reconciling'' None, CallGetSecret (''ns'', ''s1''),
          Lock, MapRead (''ns'', ''s1''),
          LogInfo ''removing SveltosCluster for Secret'' None,
          CallGetCluster (''ns'', ''c1''), CallDelete (''ns'', ''c1''),
          MapDelete (''ns'', ''s1''), Unlock,
          LogInfo ''reconciling secret'' None,
          Lock, MapWrite (''ns'', ''s1'') (''ns'', ''c1''), Unlock,
          CallGetCluster (''ns'', ''c1''), CallCreate (''ns'', ''c1'')]"
  by (simp add: reconciler_defs store_defs scenario_defs terminatingSecret_def)

text \<open>
  C4. When the fetch of the secret answers not-found and the cleanup that follows returns
  no error, \<open>Reconcile\<close> returns the empty result and no error: the caller sees neither a
  failure nor a requeue request. (The error that is wrapped and returned is the cleanup's,
  which is nil.)
\<close>

theorem Reconcile_notfound_ok:
  assumes fetch:
      "fst (getSecret (Client (remit r (LogInfo ''Reconciling'' None))) req) = Inl err"
    and nf: "IsNotFound err"
    and clean:
      "fst (cleanSveltosCluster
              ((remit r (LogInfo ''Reconciling'' None))
                 \<lparr>Client := snd (getSecret (Client (remit r (LogInfo ''Reconciling'' None))) req)\<rparr>)
              req) = None"
  shows "fst (Reconcile r req) = (\<lparr>Requeue = False, RequeueAfter = 0\<rparr>, None)"
proof -
  obtain res c1 where
    g: "getSecret (Client (remit r (LogInfo ''Reconciling'' None))) req = (res, c1)"
    by (cases "getSecret (Client (remit r (LogInfo ''Reconciling'' None))) req")
  with fetch have res: "res = Inl err" by simp
  obtain cerr rc where
    c: "cleanSveltosCluster ((remit r (LogInfo ''Reconciling'' None))\<lparr>Client := c1\<rparr>) req
          = (cerr, rc)"
    by (cases "cleanSveltosCluster ((remit r (LogInfo ''Reconciling'' None))\<lparr>Client := c1\<rparr>) req")
  with clean g have cerr: "cerr = None" by simp
  show ?thesis
    using g res nf c cerr by (simp add: Reconcile_def Let_def Wrapf_def noRequeue_def)
qed

theorem Reconcile_notfound_ok_witness:
  "fst (getSecret
          (Client (remit \<lparr>Client = reliableStore Map.empty [scenarioCluster],
                          SecretToCluster = [(''ns'', ''s1'') \<mapsto> (''ns'', ''c1'')]\<rparr>
                     (LogInfo ''Reconciling'' None)))
          (''ns'', ''s1'')) = Inl NotFound
   \<and> IsNotFound NotFound
   \<and> fst (Reconcile \<lparr>Client = reliableStore Map.empty [scenarioCluster],
                      SecretToCluster = [(''ns'', ''s1'') \<mapsto> (''ns'', ''c1'')]\<rparr>
             (''ns'', ''s1'')) = (\<lparr>Requeue = False, RequeueAfter = 0\<rparr>, None)"
proof -
  let ?r = "\<lparr>Client = reliableStore Map.empty [scenarioCluster],
             SecretToCluster = [(''ns'', ''s1'') \<mapsto> (''ns'', ''c1'')]\<rparr>"
  have h1: "fst (getSecret (Client (remit ?r (LogInfo ''Reconciling'' None))) (''ns'', ''s1''))
              = Inl NotFound"
    by (simp add: store_defs scenario_defs)
  have h2: "IsNotFound NotFound" by simp
  have h3: "fst (cleanSveltosCluster
                   ((remit ?r (LogInfo ''Reconciling'' None))
                      \<lparr>Client := snd (getSecret (Client (remit ?r (LogInfo ''Reconciling'' None)))
                                        (''ns'', ''s1''))\<rparr>)
                   (''ns'', ''s1'')) = None"
    by (simp add: cleanSveltosCluster_def Let_def store_defs scenario_defs)
  show ?thesis
    using h1 h2 Reconcile_notfound_ok [OF h1 h2 h3] by simp
qed

text \<open>
  C5. When the secret key is in the Secret-to-Cluster map, \<open>cleanSveltosCluster\<close> leaves
  the map as it was whenever it returns an error, in particular when the Delete of the
  recorded SveltosCluster fails, whose error it returns; it removes the entry exactly when
  it returns no error, and that happens only when the fetch of the SveltosCluster answered
  not-found or the fetch and then the Delete went through.
\<close>

theorem cleanSveltosCluster_index:
  fixes r :: SecretReconciler and secretKey info :: NamespacedName
  defines "fetched \<equiv> getCluster (Client (remit (remit (remit r Lock) (MapRead secretKey))
                          (LogInfo ''removing SveltosCluster for Secret'' None))) info"
  defines "after \<equiv> cleanSveltosCluster r secretKey"
  assumes present: "SecretToCluster r secretKey = Some info"
  shows
    "(\<forall>sc e. fst fetched = Inr sc \<and> fst (deleteCluster (snd fetched) sc) = Some e
        \<longrightarrow> fst after = Some e \<and> SecretToCluster (snd after) = SecretToCluster r)
   \<and> (fst after \<noteq> None \<longrightarrow> SecretToCluster (snd after) = SecretToCluster r)
   \<and> (fst after = None \<longrightarrow> SecretToCluster (snd after) = (SecretToCluster r)(secretKey := None))
   \<and> (SecretToCluster (snd after) secretKey = None
        \<longrightarrow> (\<exists>err. fst fetched = Inl err \<and> IsNotFound err)
          \<or> (\<exists>sc. fst fetched = Inr sc \<and> fst (deleteCluster (snd fetched) sc) = None))"
  unfolding fetched_def after_def
proof -
  let ?r3 = "remit (remit (remit r Lock) (MapRead secretKey))
               (LogInfo ''removing SveltosCluster for Secret'' None)"
  obtain res c4 where g: "getCluster (Client ?r3) info = (res, c4)"
    by (cases "getCluster (Client ?r3) info")
  show "(\<forall>sc e. fst (getCluster (Client ?r3) info) = Inr sc
            \<and> fst (deleteCluster (snd (getCluster (Client ?r3) info)) sc) = Some e
        \<longrightarrow> fst (cleanSveltosCluster r secretKey) = Some e
            \<and> SecretToCluster (snd (cleanSveltosCluster r secretKey)) = SecretToCluster r)
   \<and> (fst (cleanSveltosCluster r secretKey) \<noteq> None
        \<longrightarrow> SecretToCluster (snd (cleanSveltosCluster r secretKey)) = SecretToCluster r)
   \<and> (fst (cleanSveltosCluster r secretKey) = None
        \<longrightarrow> SecretToCluster (snd (cleanSveltosCluster r secretKey))
              = (SecretToCluster r)(secretKey := None))
   \<and> (SecretToCluster (snd (cleanSveltosCluster r secretKey)) secretKey = None
        \<longrightarrow> (\<exists>err. fst (getCluster (Client ?r3) info) = Inl err \<and> IsNotFound err)
          \<or> (\<exists>sc. fst (getCluster (Client ?r3) info) = Inr sc
                  \<and> fst (deleteCluster (snd (getCluster (Client ?r3) info)) sc) = None))"
  proof (cases res)
    case (Inl err)
    then show ?thesis using present g
      by (simp add: cleanSveltosCluster_def Let_def)
  next
    case (Inr sc)
    obtain derr c5 where d: "deleteCluster c4 sc = (derr, c5)"
      by (cases "deleteCluster c4 sc")
    show ?thesis
    proof (cases derr)
      case None
      then show ?thesis using present g Inr d
        by (simp add: cleanSveltosCluster_def Let_def)
    next
      case (Some e)
      then show ?thesis using present g Inr d
        by (simp add: cleanSveltosCluster_def Let_def)
    qed
  qed
qed

theorem cleanSveltosCluster_index_witness:
  "fst (cleanSveltosCluster
          \<lparr>Client = refusingWrites Map.empty [scenarioCluster],
           SecretToCluster = [(''ns'', ''s1'') \<mapsto> (''ns'', ''c1'')]\<rparr> (''ns'', ''s1''))
     = Some (StoreFailure ''refused'')
   \<and> SecretToCluster (snd (cleanSveltosCluster
          \<lparr>Client = refusingWrites Map.empty [scenarioCluster],
           SecretToCluster = [(''ns'', ''s1'') \<mapsto> (''ns'', ''c1'')]\<rparr> (''ns'', ''s1'')))
       = [(''ns'', ''s1'') \<mapsto> (''ns'', ''c1'')]"
proof -
  let ?r = "\<lparr>Client = refusingWrites Map.empty [scenarioCluster],
             SecretToCluster = [(''ns'', ''s1'') \<mapsto> (''ns'', ''c1'')]\<rparr>"
  have h: "SecretToCluster ?r (''ns'', ''s1'') = Some (''ns'', ''c1'')"
    by simp
  have e: "fst (cleanSveltosCluster ?r (''ns'', ''s1'')) = Some (StoreFailure ''refused'')"
    by (simp add: reconciler_defs store_defs scenario_defs)
  show ?thesis
    using e cleanSveltosCluster_index [OF h] by simp
qed

text \<open>
  C6. When the secret is fetched, carries no deletion timestamp and lacks one of the three
  required labels (or has no labels at all), \<open>Reconcile\<close> returns the empty result and no
  error, leaves the SveltosClusters of the store and the Secret-to-Cluster map as they
  were, and its only store call is the fetch of the secret.
\<close>

theorem Reconcile_ineligible:
  assumes fetch:
      "fst (getSecret (Client (remit r (LogInfo ''Reconciling'' None))) req) = Inr secret"
    and live: "IsZero (secret_DeletionTimestamp secret)"
    and missing:
      "\<forall>m. secret_Labels secret = Some m \<longrightarrow>
             m claudieLabel = None \<or> m claudieKubeconfig = None \<or> m claudieCluster = None"
  shows "fst (Reconcile r req) = (\<lparr>Requeue = False, RequeueAfter = 0\<rparr>, None)
       \<and> clusters (Client (snd (Reconcile r req))) = clusters (Client r)
       \<and> SecretToCluster (snd (Reconcile r req)) = SecretToCluster r
       \<and> newEvents (Client r) (Client (snd (Reconcile r req)))
           = [LogInfo ''Reconciling'' None, CallGetSecret req]"
proof -
  have no: "\<not> shouldReconcileSecret secret"
    using missing by (auto simp: shouldReconcileSecret_def split: option.splits)
  obtain res c1 where
    g: "getSecret (Client (remit r (LogInfo ''Reconciling'' None))) req = (res, c1)"
    by (cases "getSecret (Client (remit r (LogInfo ''Reconciling'' None))) req")
  with fetch have res: "res = Inr secret" by simp
  have c1: "c1 = emit (Client (remit r (LogInfo ''Reconciling'' None))) (CallGetSecret req)"
    using g by (rule getSecret_client)
  have R: "Reconcile r req
             = ((noRequeue, None), (remit r (LogInfo ''Reconciling'' None))\<lparr>Client := c1\<rparr>)"
    using g res live no by (simp add: Reconcile_def Let_def)
  show ?thesis
    by (simp add: R c1 noRequeue_def remit_def emit_def newEvents_def)
qed

theorem Reconcile_ineligible_witness:
  "fst (Reconcile
          \<lparr>Client = reliableStore
                      [(''ns'', ''s1'') \<mapsto>
                         scenarioSecret\<lparr>secret_Labels :=
                           Some [claudieLabel \<mapsto> ''claudie'', claudieCluster \<mapsto> ''c1'']\<rparr>] [],
           SecretToCluster = Map.empty\<rparr> (''ns'', ''s1''))
     = (\<lparr>Requeue = False, RequeueAfter = 0\<rparr>, None)
   \<and> clusters (Client (snd (Reconcile
          \<lparr>Client = reliableStore
                      [(''ns'', ''s1'') \<mapsto>
                         scenarioSecret\<lparr>secret_Labels :=
                           Some [claudieLabel \<mapsto> ''claudie'', claudieCluster \<mapsto> ''c1'']\<rparr>] [],
           SecretToCluster = Map.empty\<rparr> (''ns'', ''s1'')))) = []"
proof -
  let ?s = "scenarioSecret\<lparr>secret_Labels :=
              Some [claudieLabel \<mapsto> ''claudie'', claudieCluster \<mapsto> ''c1'']\<rparr>"
  let ?r = "\<lparr>Client = reliableStore [(''ns'', ''s1'') \<mapsto> ?s] [],
             SecretToCluster = Map.empty\<rparr>"
  have h1: "fst (getSecret (Client (remit ?r (LogInfo ''Reconciling'' None))) (''ns'', ''s1''))
              = Inr ?s"
    by (simp add: store_defs scenario_defs)
  have h2: "IsZero (secret_DeletionTimestamp ?s)"
    by (simp add: IsZero_def scenario_defs)
  have h3: "\<forall>m. secret_Labels ?s = Some m \<longrightarrow>
              m claudieLabel = None \<or> m claudieKubeconfig = None \<or> m claudieCluster = None"
    by (simp add: scenario_defs)
  show ?thesis
    using Reconcile_ineligible [OF h1 h2 h3] by (simp add: scenario_defs)
qed

text \<open>
  C8. \<open>addAnnotation\<close> and \<open>addOwnerReference\<close> are idempotent, alone and together: a
  second application changes nothing, so neither a second owner reference nor a second
  annotation appears; a SveltosCluster that already has the annotation with value
  \<^verbatim>\<open>ok\<close> and an owner reference of the secret's kind and name is left as it is. On a
  store whose calls do not fail, reconciling an eligible secret a second time leaves the
  SveltosClusters, the Secret-to-Cluster map and the result as the first pass left them.
\<close>

theorem refresh_idempotent:
  "addAnnotation (addAnnotation sc) = addAnnotation sc
   \<and> addOwnerReference (addOwnerReference sc s) s = addOwnerReference sc s
   \<and> addOwnerReference (addAnnotation (addOwnerReference (addAnnotation sc) s)) s
       = addOwnerReference (addAnnotation sc) s
   \<and> (sc_Annotations sc = Some m \<and> m sveltosClusterClaudieAnnotation = Some ''ok''
        \<and> list_ex (\<lambda>ref. ref_Kind ref = secret_Kind s \<and> ref_Name ref = secret_Name s)
             (sc_OwnerReferences sc)
      \<longrightarrow> addOwnerReference (addAnnotation sc) s = sc)
   \<and> ((\<forall>h e. inject (Client r) h e = None) \<and> secrets (Client r) req = Some s
        \<and> IsZero (secret_DeletionTimestamp s) \<and> shouldReconcileSecret s
      \<longrightarrow> clusters (Client (snd (Reconcile (snd (Reconcile r req)) req)))
            = clusters (Client (snd (Reconcile r req)))
          \<and> SecretToCluster (snd (Reconcile (snd (Reconcile r req)) req))
            = SecretToCluster (snd (Reconcile r req))
          \<and> fst (Reconcile (snd (Reconcile r req)) req) = fst (Reconcile r req))"
proof -
  have a: "sc_Annotations sc = Some m \<and> m sveltosClusterClaudieAnnotation = Some ''ok''
        \<and> list_ex (\<lambda>ref. ref_Kind ref = secret_Kind s \<and> ref_Name ref = secret_Name s)
             (sc_OwnerReferences sc)
      \<longrightarrow> addOwnerReference (addAnnotation sc) s = sc"
    using refresh_fixed [of sc m s] by blast
  have b: "(\<forall>h e. inject (Client r) h e = None) \<and> secrets (Client r) req = Some s
        \<and> IsZero (secret_DeletionTimestamp s) \<and> shouldReconcileSecret s
      \<longrightarrow> clusters (Client (snd (Reconcile (snd (Reconcile r req)) req)))
            = clusters (Client (snd (Reconcile r req)))
          \<and> SecretToCluster (snd (Reconcile (snd (Reconcile r req)) req))
            = SecretToCluster (snd (Reconcile r req))
          \<and> fst (Reconcile (snd (Reconcile r req)) req) = fst (Reconcile r req)"
    using Reconcile_twice [of r req s] by blast
  show ?thesis
    using a b addAnnotation_idem [of sc] addOwnerReference_idem [of sc s] refresh_idem [of sc s]
    by blast
qed

theorem refresh_idempotent_witness:
  "addOwnerReference (addAnnotation scenarioCluster) scenarioSecret = scenarioCluster
   \<and> clusters (Client (snd (Reconcile (snd (Reconcile
         \<lparr>Client = reliableStore [(''ns'', ''s1'') \<mapsto> scenarioSecret] [],
          SecretToCluster = Map.empty\<rparr> (''ns'', ''s1''))) (''ns'', ''s1''))))
       = [scenarioCluster]"
proof -
  let ?r = "\<lparr>Client = reliableStore [(''ns'', ''s1'') \<mapsto> scenarioSecret] [],
             SecretToCluster = Map.empty\<rparr>"
  let ?m = "[sveltosClusterClaudieAnnotation \<mapsto> ''ok'']"
  have h1: "sc_Annotations scenarioCluster = Some ?m \<and> ?m sveltosClusterClaudieAnnotation = Some ''ok''
        \<and> list_ex (\<lambda>ref. ref_Kind ref = secret_Kind scenarioSecret
                          \<and> ref_Name ref = secret_Name scenarioSecret)
             (sc_OwnerReferences scenarioCluster)"
    by (simp add: scenarioSecret_def scenarioCluster_def)
  have h2: "(\<forall>h e. inject (Client ?r) h e = None)
        \<and> secrets (Client ?r) (''ns'', ''s1'') = Some scenarioSecret
        \<and> IsZero (secret_DeletionTimestamp scenarioSecret)
        \<and> shouldReconcileSecret scenarioSecret"
    by (simp add: shouldReconcileSecret_def IsZero_def scenario_defs)
  have once: "clusters (Client (snd (Reconcile ?r (''ns'', ''s1'')))) = [scenarioCluster]"
    by (simp add: reconciler_defs store_defs scenario_defs)
  show ?thesis
    using h1 h2 once refresh_idempotent [of scenarioCluster scenarioSecret ?m ?r "(''ns'', ''s1'')"]
    by simp
qed

text \<open>
  C10. For a secret with the three labels, \<open>createSveltosCluster\<close> writes the entry from
  the secret's key to (secret namespace, cluster-name label value) into the map before it
  calls the store: the pass starts with its log line, the locked map write and then the Get
  of the SveltosCluster. Whatever the store answers afterwards, the map holds that entry
  when the pass returns.
\<close>

theorem createSveltosCluster_records_first:
  assumes labels: "secret_Labels secret = Some m"
    and l1: "m claudieLabel \<noteq> None"
    and l2: "m claudieKubeconfig \<noteq> None"
    and l3: "m claudieCluster = Some name"
  shows "SecretToCluster (snd (createSveltosCluster r secret))
           (secret_Namespace secret, secret_Name secret) = Some (secret_Namespace secret, name)
       \<and> take 5 (newEvents (Client r) (Client (snd (createSveltosCluster r secret))))
           = [LogInfo ''reconciling secret'' None, Lock,
              MapWrite (secret_Namespace secret, secret_Name secret) (secret_Namespace secret, name),
              Unlock, CallGetCluster (secret_Namespace secret, name)]"
proof -
  let ?ns = "secret_Namespace secret"
  let ?r1 = "updateSecretToClusterMap (remit r (LogInfo ''reconciling secret'' None)) secret ?ns name"
  have nm: "getSveltosClusterName secret = name"
    using labels l3 by (simp add: getSveltosClusterName_def)
  obtain res c2 where g: "getCluster (Client ?r1) (?ns, name) = (res, c2)"
    by (cases "getCluster (Client ?r1) (?ns, name)")
  have c2: "c2 = emit (Client ?r1) (CallGetCluster (?ns, name))"
    using g by (rule getCluster_client)
  have t2: "trace c2 = trace (Client r) @
              [LogInfo ''reconciling secret'' None, Lock,
               MapWrite (?ns, secret_Name secret) (?ns, name), Unlock, CallGetCluster (?ns, name)]"
    by (simp add: c2 updateSecretToClusterMap_client remit_def emit_def)
  have idx: "SecretToCluster ?r1 (?ns, secret_Name secret) = Some (?ns, name)"
    by (simp add: updateSecretToClusterMap_index)
  have "SecretToCluster (snd (createSveltosCluster r secret)) = SecretToCluster ?r1
      \<and> (\<exists>rest. trace (Client (snd (createSveltosCluster r secret))) = trace c2 @ rest)"
    using g nm
    by (auto simp: createSveltosCluster_def getSveltosClusterNamespace_def Let_def
          split: sum.splits prod.splits dest: createCluster_traceD updateCluster_traceD)
  then show ?thesis
    using idx t2 by (auto simp: newEvents_def)
qed

theorem createSveltosCluster_records_first_witness:
  "fst (createSveltosCluster
          \<lparr>Client = refusingWrites Map.empty [], SecretToCluster = Map.empty\<rparr> scenarioSecret)
     = Some (StoreFailure ''refused'')
   \<and> SecretToCluster (snd (createSveltosCluster
          \<lparr>Client = refusingWrites Map.empty [], SecretToCluster = Map.empty\<rparr> scenarioSecret))
         (''ns'', ''s1'') = Some (''ns'', ''c1'')"
proof -
  let ?r = "\<lparr>Client = refusingWrites Map.empty [], SecretToCluster = Map.empty\<rparr>"
  let ?m = "[claudieLabel \<mapsto> ''claudie'', claudieKubeconfig \<mapsto> ''kubeconfig'',
             claudieCluster \<mapsto> ''c1'']"
  have h1: "secret_Labels scenarioSecret = Some ?m"
    by (simp add: scenarioSecret_def)
  have h2: "?m claudieLabel \<noteq> None"
    by (simp add: scenario_defs)
  have h3: "?m claudieKubeconfig \<noteq> None"
    by (simp add: scenario_defs)
  have h4: "?m claudieCluster = Some ''c1''"
    by (simp add: scenario_defs)
  have e: "fst (createSveltosCluster ?r scenarioSecret) = Some (StoreFailure ''refused'')"
    by (simp add: reconciler_defs store_defs scenario_defs)
  show ?thesis
    using e createSveltosCluster_records_first [OF h1 h2 h3 h4, of ?r]
    by (simp add: scenarioSecret_def)
qed

section \<open>The sweeper\<close>

text \<open>
  A SveltosCluster with the annotation, no deletion timestamp and no owner reference of
  kind \<^verbatim>\<open>Secret\<close>: the item logs the anomaly and then hands the nil key to
  \<open>isClaudieSecretRemoved\<close>, which dereferences it.
\<close>

lemma item_no_owner_panics:
  assumes "IsZero (sc_DeletionTimestamp sc)" and "isSveltosClusterForClaudie sc"
    and "getClaudieSecret sc = None"
  shows "cleanStaleSveltosCluster_item c sc =
           Panic ''invalid memory address or nil pointer dereference''
             (emit c (LogInfo (''found SveltosCluster '' @ sc_Namespace sc @ ''/'' @ sc_Name sc
                                 @ '' with no Claudie reference'') None))"
  using assms by (simp add: cleanStaleSveltosCluster_item_def isClaudieSecretRemoved_def)

text \<open>
  C3, at the orphan. One tick over a store that lists the SveltosCluster \<^verbatim>\<open>ns/c2\<close>,
  annotated, not marked for deletion and without owner reference, logs the anomaly and then
  panics on the nil secret key; the item is not skipped.
\<close>

theorem sweep_orphan_panics:
  "cleanStaleSveltosCluster_tick (reliableStore Map.empty [orphanCluster])
     = Panic ''invalid memory address or nil pointer dereference''
         ((reliableStore Map.empty [orphanCluster])
            \<lparr>trace := [Sleep, CallList,
                        LogInfo ''found SveltosCluster ns/c2 with no Claudie reference'' None]\<rparr>)
   \<and> clusters (finalClient (cleanStaleSveltosCluster (Suc 0)
                                 (reliableStore Map.empty [orphanCluster])))
       = [orphanCluster]"
  by (simp add: sweeper_defs store_defs scenario_defs orphanCluster_def)

text \<open>
  C7. A SveltosCluster that is marked for deletion or lacks the Claudie annotation is passed
  over by the sweep with no effect at all: no log line, no fetch of a secret, no Delete. In
  a tick over a store where it is the only object under its key, no Delete is issued for
  that key and the object stays in the store, whatever the store holds about its owner and
  however the tick ends.
\<close>

theorem sweep_skips_unmarked:
  assumes skip: "\<not> IsZero (sc_DeletionTimestamp sc) \<or> \<not> isSveltosClusterForClaudie sc"
  shows "cleanStaleSveltosCluster_item c sc = Done () c
       \<and> cleanStaleSveltosCluster_items c (sc # rest) = cleanStaleSveltosCluster_items c rest
       \<and> ((\<forall>x\<in>set (clusters c). clusterKey x = clusterKey sc \<longrightarrow> x = sc) \<longrightarrow>
            CallDelete (clusterKey sc)
              \<notin> set (newEvents c (finalClient (cleanStaleSveltosCluster_tick c)))
            \<and> filter (\<lambda>x. clusterKey x = clusterKey sc)
                 (clusters (finalClient (cleanStaleSveltosCluster_tick c)))
               = filter (\<lambda>x. clusterKey x = clusterKey sc) (clusters c))"
proof -
  have a: "cleanStaleSveltosCluster_item c sc = Done () c"
    using skip by (rule item_skip)
  have b: "cleanStaleSveltosCluster_items c (sc # rest) = cleanStaleSveltosCluster_items c rest"
    by (simp add: a)
  have c: "(\<forall>x\<in>set (clusters c). clusterKey x = clusterKey sc \<longrightarrow> x = sc) \<longrightarrow>
            CallDelete (clusterKey sc)
              \<notin> set (newEvents c (finalClient (cleanStaleSveltosCluster_tick c)))
            \<and> filter (\<lambda>x. clusterKey x = clusterKey sc)
                 (clusters (finalClient (cleanStaleSveltosCluster_tick c)))
               = filter (\<lambda>x. clusterKey x = clusterKey sc) (clusters c)"
  proof
    assume only: "\<forall>x\<in>set (clusters c). clusterKey x = clusterKey sc \<longrightarrow> x = sc"
    have all: "\<forall>x\<in>set (clusters c). clusterKey x = clusterKey sc \<longrightarrow>
                 \<not> IsZero (sc_DeletionTimestamp x) \<or> \<not> isSveltosClusterForClaudie x"
      using only skip by blast
    show "CallDelete (clusterKey sc)
              \<notin> set (newEvents c (finalClient (cleanStaleSveltosCluster_tick c)))
            \<and> filter (\<lambda>x. clusterKey x = clusterKey sc)
                 (clusters (finalClient (cleanStaleSveltosCluster_tick c)))
               = filter (\<lambda>x. clusterKey x = clusterKey sc) (clusters c)"
      using tick_other [OF all] by blast
  qed
  show ?thesis using a b c by blast
qed

theorem sweep_skips_unmarked_witness:
  "\<not> isSveltosClusterForClaudie foreignCluster
   \<and> cleanStaleSveltosCluster_item (reliableStore Map.empty [foreignCluster]) foreignCluster
       = Done () (reliableStore Map.empty [foreignCluster])
   \<and> CallDelete (''ns'', ''c1'')
       \<notin> set (newEvents (reliableStore Map.empty [foreignCluster])
                (finalClient (cleanStaleSveltosCluster_tick
                   (reliableStore Map.empty [foreignCluster]))))
   \<and> filter (\<lambda>x. clusterKey x = (''ns'', ''c1''))
        (clusters (finalClient (cleanStaleSveltosCluster_tick
                     (reliableStore Map.empty [foreignCluster]))))
       = [foreignCluster]"
proof -
  let ?c = "reliableStore Map.empty [foreignCluster]"
  have h: "\<not> IsZero (sc_DeletionTimestamp foreignCluster)
           \<or> \<not> isSveltosClusterForClaudie foreignCluster"
    by (simp add: isSveltosClusterForClaudie_def scenario_defs foreignCluster_def)
  have only: "\<forall>x\<in>set (clusters ?c). clusterKey x = clusterKey foreignCluster \<longrightarrow> x = foreignCluster"
    by (simp add: reliableStore_def)
  have k: "clusterKey foreignCluster = (''ns'', ''c1'')"
    by (simp add: clusterKey_def scenario_defs foreignCluster_def)
  have n: "\<not> isSveltosClusterForClaudie foreignCluster"
    by (simp add: isSveltosClusterForClaudie_def scenario_defs foreignCluster_def)
  show ?thesis
    using n only k sweep_skips_unmarked [OF h, of ?c "[]"]
    by (simp add: reliableStore_def)
qed

section \<open>The mutex\<close>

text \<open>
  C9, as stated, at a recorded secret. \<open>cleanSveltosCluster\<close> takes the mutex first and
  releases it last; with the secret key in the map, its Get and its Delete of the
  SveltosCluster are made in between, while the mutex is held.
\<close>

theorem cleanSveltosCluster_calls_under_lock:
  "newEvents (reliableStore Map.empty [scenarioCluster])
     (Client (snd (cleanSveltosCluster
        \<lparr>Client = reliableStore Map.empty [scenarioCluster],
         SecretToCluster = [(''ns'', ''s1'') \<mapsto> (''ns'', ''c1'')]\<rparr> (''ns'', ''s1''))))
     = [Lock, MapRead (''ns'', ''s1''), LogInfo ''removing SveltosCluster for Secret'' None,
        CallGetCluster (''ns'', ''c1''), CallDelete (''ns'', ''c1''),
        MapDelete (''ns'', ''s1''), Unlock]
   \<and> storeCallUnderLock False
        (newEvents (reliableStore Map.empty [scenarioCluster])
           (Client (snd (cleanSveltosCluster
              \<lparr>Client = reliableStore Map.empty [scenarioCluster],
               SecretToCluster = [(''ns'', ''s1'') \<mapsto> (''ns'', ''c1'')]\<rparr> (''ns'', ''s1'')))))"
  by (simp add: reconciler_defs store_defs scenario_defs)

text \<open>
  C9, amended. \<open>updateSecretToClusterMap\<close> holds the mutex for the single map write and
  nothing else, and the create-or-update pass makes no store call while the mutex is held.
  \<open>cleanSveltosCluster\<close> takes the mutex on entry and releases it only on return; when
  the secret key is in the map, it calls the store while holding the mutex.
\<close>

theorem mutex_scope:
  "newEvents (Client r) (Client (updateSecretToClusterMap r secret ns nm))
     = [Lock, MapWrite (secret_Namespace secret, secret_Name secret) (ns, nm), Unlock]
   \<and> \<not> storeCallUnderLock False
         (newEvents (Client r) (Client (snd (createSveltosCluster r secret))))
   \<and> (\<exists>mid. newEvents (Client r) (Client (snd (cleanSveltosCluster r secretKey)))
               = Lock # mid @ [Unlock]
             \<and> Lock \<notin> set mid \<and> Unlock \<notin> set mid)
   \<and> (SecretToCluster r secretKey \<noteq> None \<longrightarrow>
         storeCallUnderLock False
           (newEvents (Client r) (Client (snd (cleanSveltosCluster r secretKey)))))"
proof -
  have a: "newEvents (Client r) (Client (updateSecretToClusterMap r secret ns nm))
             = [Lock, MapWrite (secret_Namespace secret, secret_Name secret) (ns, nm), Unlock]"
    using updateSecretToClusterMap_events [of r secret ns nm] by (rule newEvents_append)
  obtain rest where
    t: "trace (Client (snd (createSveltosCluster r secret)))
          = trace (Client r) @
              [LogInfo ''reconciling secret'' None, Lock,
               MapWrite (secret_Namespace secret, secret_Name secret)
                 (secret_Namespace secret, getSveltosClusterName secret),
               Unlock, CallGetCluster (secret_Namespace secret, getSveltosClusterName secret)] @ rest"
    and nl: "Lock \<notin> set rest"
    using createSveltosCluster_events [of r secret] by blast
  have b: "\<not> storeCallUnderLock False
               (newEvents (Client r) (Client (snd (createSveltosCluster r secret))))"
    using storeCallUnderLock_unlocked [OF nl] by (simp add: newEvents_append [OF t])
  obtain mid where
    u: "trace (Client (snd (cleanSveltosCluster r secretKey)))
          = trace (Client r) @ Lock # mid @ [Unlock]"
    and m: "Lock \<notin> set mid" "Unlock \<notin> set mid"
    and sc: "SecretToCluster r secretKey \<noteq> None \<longrightarrow> (\<exists>e\<in>set mid. isStoreCall e)"
    using cleanSveltosCluster_events [of r secretKey] by blast
  have c: "\<exists>mid. newEvents (Client r) (Client (snd (cleanSveltosCluster r secretKey)))
               = Lock # mid @ [Unlock]
             \<and> Lock \<notin> set mid \<and> Unlock \<notin> set mid"
    using m newEvents_append [OF u] by blast
  have d: "SecretToCluster r secretKey \<noteq> None \<longrightarrow>
         storeCallUnderLock False
           (newEvents (Client r) (Client (snd (cleanSveltosCluster r secretKey))))"
    using sc storeCallUnderLock_locked [OF m(2), of "[Unlock]"]
    by (simp add: newEvents_append [OF u])
  show ?thesis using a b c d by blast
qed

theorem mutex_scope_witness:
  "storeCallUnderLock False
     (newEvents (refusingWrites Map.empty [scenarioCluster])
        (Client (snd (cleanSveltosCluster
           \<lparr>Client = refusingWrites Map.empty [scenarioCluster],
            SecretToCluster = [(''ns'', ''s1'') \<mapsto> (''ns'', ''c1'')]\<rparr> (''ns'', ''s1'')))))"
proof -
  let ?r = "\<lparr>Client = refusingWrites Map.empty [scenarioCluster],
             SecretToCluster = [(''ns'', ''s1'') \<mapsto> (''ns'', ''c1'')]\<rparr>"
  have h: "SecretToCluster ?r (''ns'', ''s1'') \<noteq> None"
    by simp
  show ?thesis
    using h mutex_scope [of ?r scenarioSecret "''ns''" "''c1''" "(''ns'', ''s1'')"]
    by simp
qed

end
